theory Spec2Isabelle
  imports Complex_Main "HOL-Library.Word"
begin

section \<open>JavaScript values\<close>

text \<open>
  A JavaScript string is a sequence of 16-bit code units. ASCII literals of the source are
  written \<open>js ''...''\<close>; the Thai literals are given by their code units.
\<close>

type_synonym code_unit = "16 word"
type_synonym js_string = "code_unit list"

definition js :: "string \<Rightarrow> js_string" where
  "js s = map (\<lambda>c. of_nat (of_char c)) s"

text \<open>
  The values that \<open>JSON.parse\<close> produces, and \<open>undefined\<close>, which a property read
  of an absent key yields. An object is its list of own properties, in order.
\<close>

datatype js_value =
    Undefined
  | Null
  | Boolean bool
  | Number real
  | String js_string
  | Array "js_value list"
  | Object "(js_string \<times> js_value) list"

datatype js_error = TypeError | RangeError | URIError | SyntaxError | FetchError

text \<open>ToBoolean: \<open>!v\<close> in the source is \<open>\<not> truthy v\<close>.\<close>

fun truthy :: "js_value \<Rightarrow> bool" where
  "truthy Undefined = False"
| "truthy Null = False"
| "truthy (Boolean b) = b"
| "truthy (Number x) = (x \<noteq> 0)"
| "truthy (String s) = (s \<noteq> [])"
| "truthy (Array xs) = True"
| "truthy (Object kvs) = True"

text \<open>
  \<open>v.k\<close> for a property name \<open>k\<close> that no built-in prototype defines (the source reads
  \<open>messages\<close>, \<open>prompt\<close>, \<open>choices\<close> and \<open>message\<close>): a \<open>TypeError\<close> on
  \<open>undefined\<close> and \<open>null\<close>, the own property of an object, \<open>undefined\<close> otherwise.
\<close>

fun get_prop :: "js_value \<Rightarrow> js_string \<Rightarrow> js_error + js_value" where
  "get_prop Undefined k = Inl TypeError"
| "get_prop Null k = Inl TypeError"
| "get_prop (Object kvs) k = Inr (case map_of kvs k of None \<Rightarrow> Undefined | Some v \<Rightarrow> v)"
| "get_prop v k = Inr Undefined"

text \<open>\<open>v[0]\<close>: the first element of an array, the first code unit of a string, the
  property \<open>0\<close> of an object.\<close>

fun get_index0 :: "js_value \<Rightarrow> js_error + js_value" where
  "get_index0 Undefined = Inl TypeError"
| "get_index0 Null = Inl TypeError"
| "get_index0 (Array xs) = Inr (case xs of [] \<Rightarrow> Undefined | x # _ \<Rightarrow> x)"
| "get_index0 (String s) = Inr (case s of [] \<Rightarrow> Undefined | c # _ \<Rightarrow> String [c])"
| "get_index0 (Object kvs) = Inr (case map_of kvs (js ''0'') of None \<Rightarrow> Undefined | Some v \<Rightarrow> v)"
| "get_index0 v = Inr Undefined"

fun isArray :: "js_value \<Rightarrow> bool" where
  "isArray (Array xs) = True"
| "isArray v = False"

text \<open>\<open>typeof v === 'string'\<close>.\<close>

fun isString :: "js_value \<Rightarrow> bool" where
  "isString (String s) = True"
| "isString v = False"

section \<open>Date.prototype.toISOString\<close>

text \<open>
  A time value is a number of milliseconds since the epoch. \<open>new Date(t).toISOString()\<close>
  throws a \<open>RangeError\<close> outside the range of \<open>Date\<close> (100 000 000 days on either side
  of the epoch) and prints the proleptic Gregorian date in UTC otherwise, the year with
  four digits, or with a sign and six digits outside 0..9999.
\<close>

primrec pad :: "nat \<Rightarrow> nat \<Rightarrow> js_string" where
  "pad 0 n = []"
| "pad (Suc w) n = pad w (n div 10) @ [of_nat (48 + n mod 10)]"

definition civil_from_days :: "int \<Rightarrow> int \<times> nat \<times> nat" where
  "civil_from_days z0 =
     (let z = z0 + 719468;
          era = z div 146097;
          doe = z mod 146097;
          yoe = (doe - doe div 1460 + doe div 36524 - doe div 146096) div 365;
          doy = doe - (365 * yoe + yoe div 4 - yoe div 100);
          mp = (5 * doy + 2) div 153;
          d = doy - (153 * mp + 2) div 5 + 1;
          m = (if mp < 10 then mp + 3 else mp - 9);
          y = yoe + era * 400 + (if m \<le> 2 then 1 else 0)
      in (y, nat m, nat d))"

definition year_string :: "int \<Rightarrow> js_string" where
  "year_string y =
     (if 0 \<le> y \<and> y \<le> 9999 then pad 4 (nat y)
      else (if y < 0 then js ''-'' else js ''+'') @ pad 6 (nat \<bar>y\<bar>))"

definition in_date_range :: "int \<Rightarrow> bool" where
  "in_date_range t = (\<bar>t\<bar> \<le> 8640000000000000)"

definition toISOString :: "int \<Rightarrow> js_error + js_string" where
  "toISOString t =
     (if \<not> in_date_range t then Inl RangeError
      else
        let ms = nat (t mod 86400000)
        in (case civil_from_days (t div 86400000) of
              (y, m, d) \<Rightarrow>
                Inr (year_string y @ js ''-'' @ pad 2 m @ js ''-'' @ pad 2 d @ js ''T''
                     @ pad 2 (ms div 3600000) @ js '':'' @ pad 2 (ms div 60000 mod 60)
                     @ js '':'' @ pad 2 (ms div 1000 mod 60) @ js ''.'' @ pad 3 (ms mod 1000)
                     @ js ''Z'')))"

section \<open>Requests and responses\<close>

text \<open>
  What the handlers read of an Express request: the three sources of the client address
  (each a string or \<open>undefined\<close>) and the parsed JSON body.
\<close>

record request =
  ip :: "js_string option"
  remoteAddress :: "js_string option"
  x_forwarded_for :: "js_string option"
  body :: js_value

text \<open>A request arriving directly from address \<open>a\<close> with body \<open>b\<close>.\<close>

definition request_from :: "string \<Rightarrow> js_value \<Rightarrow> request" where
  "request_from a b = \<lparr>ip = Some (js a), remoteAddress = None, x_forwarded_for = None, body = b\<rparr>"

text \<open>\<open>res.status(s).json(v)\<close>; \<open>res.json(v)\<close> alone answers with status 200.\<close>

record http_response =
  status :: nat
  payload :: js_value

section \<open>Rate limiting\<close>

record client_data =
  count :: nat
  resetTime :: int

text \<open>\<open>requestCounts\<close>: a \<open>Map\<close> keyed by the client address, which may be \<open>undefined\<close>.\<close>

type_synonym request_counts = "js_string option \<rightharpoonup> client_data"

definition RATE_LIMIT :: nat where
  "RATE_LIMIT = 50"

definition WINDOW_MS :: int where
  "WINDOW_MS = 60 * 60 * 1000"

text \<open>Line 142: the quota message (in Thai, "usage limit exceeded, please wait one hour").\<close>

definition MSG_RATE_LIMIT :: js_string where
  "MSG_RATE_LIMIT =
     [0x0E43, 0x0E0A, 0x0E49, 0x0E07, 0x0E32, 0x0E19, 0x0E40, 0x0E01, 0x0E34, 0x0E19, 0x0E02,
      0x0E35, 0x0E14, 0x0E08, 0x0E33, 0x0E01, 0x0E31, 0x0E14, 0x0020, 0x0E01, 0x0E23, 0x0E38,
      0x0E13, 0x0E32, 0x0E23, 0x0E2D, 0x0020, 0x0031, 0x0020, 0x0E0A, 0x0E31, 0x0E48, 0x0E27,
      0x0E42, 0x0E21, 0x0E07]"

text \<open>\<open>a || b\<close> on strings-or-undefined: \<open>a\<close> when it is a non-empty string, else \<open>b\<close>.\<close>

definition or_else :: "js_string option \<Rightarrow> js_string option \<Rightarrow> js_string option" where
  "or_else a b = (case a of Some (c # cs) \<Rightarrow> a | _ \<Rightarrow> b)"

definition clientIP :: "request \<Rightarrow> js_string option" where
  "clientIP req = or_else (or_else (ip req) (remoteAddress req)) (x_forwarded_for req)"

text \<open>
  The middleware either calls \<open>next()\<close>, answers itself, or throws (only \<open>toISOString\<close>
  can). It takes the map and the reading of \<open>Date.now()\<close> and returns the map as it
  leaves it.
\<close>

datatype gate_result = Next | Responded http_response | Thrown js_error

definition rateLimitMiddleware ::
  "request_counts \<Rightarrow> request \<Rightarrow> int \<Rightarrow> gate_result \<times> request_counts" where
  "rateLimitMiddleware requestCounts req now =
     (case requestCounts (clientIP req) of
        None \<Rightarrow>
          (Next, requestCounts(clientIP req \<mapsto> \<lparr>count = 1, resetTime = now + WINDOW_MS\<rparr>))
      | Some clientData \<Rightarrow>
          if now > resetTime clientData then
            (Next, requestCounts(clientIP req \<mapsto> \<lparr>count = 1, resetTime = now + WINDOW_MS\<rparr>))
          else if count clientData \<ge> RATE_LIMIT then
            (case toISOString (resetTime clientData) of
               Inl e \<Rightarrow> (Thrown e, requestCounts)
             | Inr stamp \<Rightarrow>
                 (Responded \<lparr>status = 429,
                              payload = Object [(js ''error'', String MSG_RATE_LIMIT),
                                                (js ''resetTime'', String stamp)]\<rparr>,
                  requestCounts))
          else
            (Next, requestCounts(clientIP req \<mapsto> clientData\<lparr>count := count clientData + 1\<rparr>)))"

text \<open>
  A run of the middleware over a sequence of requests, each with the clock reading at its
  arrival: the decisions taken, and the map at the end.
\<close>

fun run_gate ::
  "request_counts \<Rightarrow> (request \<times> int) list \<Rightarrow> gate_result list \<times> request_counts" where
  "run_gate rc [] = ([], rc)"
| "run_gate rc ((req, now) # evs) =
     (let (r, rc') = rateLimitMiddleware rc req now;
          (rs, rc'') = run_gate rc' evs
      in (r # rs, rc''))"

text \<open>
  The number of requests of client \<open>c\<close> with arrival time in \<open>[lo, hi]\<close> that a run
  admits.
\<close>

definition admitted_in ::
  "js_string option \<Rightarrow> int \<Rightarrow> int \<Rightarrow> request_counts \<Rightarrow> (request \<times> int) list \<Rightarrow> nat" where
  "admitted_in c lo hi rc evs =
     length (filter (\<lambda>((req, now), r). clientIP req = c \<and> lo \<le> now \<and> now \<le> hi \<and> r = Next)
                    (zip evs (fst (run_gate rc evs))))"

section \<open>Strings: the regular expression, trim, encodeURIComponent\<close>

text \<open>\<open>\w\<close> without the \<open>i\<close> and \<open>u\<close> flags: the ASCII letters, the digits and the underscore.\<close>

definition is_word :: "code_unit \<Rightarrow> bool" where
  "is_word c =
     (let n = unat c
      in (0x30 \<le> n \<and> n \<le> 0x39) \<or> (0x41 \<le> n \<and> n \<le> 0x5A) \<or> n = 0x5F
         \<or> (0x61 \<le> n \<and> n \<le> 0x7A))"

text \<open>\<open>\s\<close>: the white space and line terminator code points of ECMAScript, which are
  also what \<open>trim\<close> strips.\<close>

definition is_space :: "code_unit \<Rightarrow> bool" where
  "is_space c =
     (let n = unat c
      in (0x09 \<le> n \<and> n \<le> 0x0D) \<or> n = 0x20 \<or> n = 0xA0 \<or> n = 0x1680
         \<or> (0x2000 \<le> n \<and> n \<le> 0x200A) \<or> n = 0x2028 \<or> n = 0x2029 \<or> n = 0x202F
         \<or> n = 0x205F \<or> n = 0x3000 \<or> n = 0xFEFF)"

text \<open>The class \<open>[^\w\s,-]\<close> of line 233: a code unit that is none of a word character,
  white space, a comma or a hyphen.\<close>

definition not_word_space_comma_hyphen :: "code_unit \<Rightarrow> bool" where
  "not_word_space_comma_hyphen c = (\<not> (is_word c \<or> is_space c \<or> c = 0x2C \<or> c = 0x2D))"

text \<open>\<open>s.replace(/[...]/g, r)\<close> for a class of single code units: every code unit of the
  class is replaced by \<open>r\<close>, from left to right.\<close>

fun replace_all :: "(code_unit \<Rightarrow> bool) \<Rightarrow> js_string \<Rightarrow> js_string \<Rightarrow> js_string" where
  "replace_all cls r [] = []"
| "replace_all cls r (c # cs) =
     (if cls c then r @ replace_all cls r cs else c # replace_all cls r cs)"

definition trim :: "js_string \<Rightarrow> js_string" where
  "trim s = rev (dropWhile is_space (rev (dropWhile is_space s)))"

text \<open>The characters \<open>encodeURIComponent\<close> leaves as they are: letters, digits and
  \<open>- _ . ! ~ * ' ( )\<close>.\<close>

definition uri_unreserved :: "code_unit \<Rightarrow> bool" where
  "uri_unreserved c =
     (let n = unat c
      in (0x30 \<le> n \<and> n \<le> 0x39) \<or> (0x41 \<le> n \<and> n \<le> 0x5A) \<or> (0x61 \<le> n \<and> n \<le> 0x7A)
         \<or> n = 0x2D \<or> n = 0x5F \<or> n = 0x2E \<or> n = 0x21 \<or> n = 0x7E \<or> n = 0x2A
         \<or> n = 0x27 \<or> n = 0x28 \<or> n = 0x29)"

definition high_surrogate :: "code_unit \<Rightarrow> bool" where
  "high_surrogate c = (0xD800 \<le> unat c \<and> unat c \<le> 0xDBFF)"

definition low_surrogate :: "code_unit \<Rightarrow> bool" where
  "low_surrogate c = (0xDC00 \<le> unat c \<and> unat c \<le> 0xDFFF)"

definition hex_digit :: "nat \<Rightarrow> code_unit" where
  "hex_digit n = of_nat (if n < 10 then 0x30 + n else 0x41 + (n - 10))"

text \<open>The bytes of the UTF-8 form of a code point.\<close>

definition utf8 :: "nat \<Rightarrow> nat list" where
  "utf8 cp =
     (if cp < 0x80 then [cp]
      else if cp < 0x800 then [0xC0 + cp div 0x40, 0x80 + cp mod 0x40]
      else if cp < 0x10000 then
        [0xE0 + cp div 0x1000, 0x80 + cp div 0x40 mod 0x40, 0x80 + cp mod 0x40]
      else
        [0xF0 + cp div 0x40000, 0x80 + cp div 0x1000 mod 0x40, 0x80 + cp div 0x40 mod 0x40,
         0x80 + cp mod 0x40])"

definition percent_escape :: "nat \<Rightarrow> js_string" where
  "percent_escape cp = concat (map (\<lambda>b. [0x25, hex_digit (b div 16), hex_digit (b mod 16)]) (utf8 cp))"

text \<open>\<open>encodeURIComponent\<close>: a surrogate pair is one code point; a surrogate without its
  partner is a \<open>URIError\<close>.\<close>

fun encodeURIComponent :: "js_string \<Rightarrow> js_error + js_string" where
  "encodeURIComponent [] = Inr []"
| "encodeURIComponent (c # cs) =
     (if uri_unreserved c then
        (case encodeURIComponent cs of Inl e \<Rightarrow> Inl e | Inr rest \<Rightarrow> Inr (c # rest))
      else if low_surrogate c then Inl URIError
      else if high_surrogate c then
        (case cs of
           [] \<Rightarrow> Inl URIError
         | d # ds \<Rightarrow>
             if low_surrogate d then
               (case encodeURIComponent ds of
                  Inl e \<Rightarrow> Inl e
                | Inr rest \<Rightarrow>
                    Inr (percent_escape
                           (0x10000 + (unat c - 0xD800) * 0x400 + (unat d - 0xDC00)) @ rest))
             else Inl URIError)
      else
        (case encodeURIComponent cs of
           Inl e \<Rightarrow> Inl e
         | Inr rest \<Rightarrow> Inr (percent_escape (unat c) @ rest)))"

section \<open>The environment and the upstream service\<close>

text \<open>
  \<open>process.env\<close> as the server reads it (a variable is a string or \<open>undefined\<close>), and the
  text the runtime gives to the \<open>message\<close> of an error it throws.
\<close>

record environment =
  GROQ_API_KEY :: "js_string option"
  NODE_ENV :: "js_string option"
  error_message :: "js_error \<Rightarrow> js_string"

text \<open>A call of \<open>fetch\<close>: the URL, the request method, the headers, and the value whose
  \<open>JSON.stringify\<close> is sent as the body.\<close>

record upstream_request =
  url :: js_string
  request_method :: js_string
  headers :: "(js_string \<times> js_string) list"
  json_body :: js_value

text \<open>What comes back: the status; what \<open>response.text()\<close> gives, the text of the body
  or the error it throws when the body cannot be read; and what \<open>response.json()\<close> gives,
  the parsed body or the error it throws when the body cannot be read or is not JSON. The
  handler calls the first on a status outside 200..299 and the second otherwise.\<close>

record upstream_response =
  up_status :: nat
  up_text :: "js_error + js_string"
  up_json :: "js_error + js_value"

text \<open>The promise of \<open>fetch\<close> is rejected (no connection, no response) or resolves to a
  response.\<close>

datatype upstream_result = Rejects js_error | Resolves upstream_response

definition ok :: "upstream_response \<Rightarrow> bool" where
  "ok response = (200 \<le> up_status response \<and> up_status response \<le> 299)"

section \<open>Messages\<close>

definition MSG_CONFIG :: js_string where
  "MSG_CONFIG = js ''Server configuration error: API Key not found''"

definition MSG_MESSAGES_REQUIRED :: js_string where
  "MSG_MESSAGES_REQUIRED = js ''Invalid request: messages array required''"

definition MSG_PROMPT_REQUIRED :: js_string where
  "MSG_PROMPT_REQUIRED = js ''Prompt is required''"

text \<open>Line 191 ("an error occurred while connecting to the AI").\<close>

definition MSG_UPSTREAM :: js_string where
  "MSG_UPSTREAM =
     [0x0E40, 0x0E01, 0x0E34, 0x0E14, 0x0E02, 0x0E49, 0x0E2D, 0x0E1C, 0x0E34, 0x0E14, 0x0E1E,
      0x0E25, 0x0E32, 0x0E14, 0x0E43, 0x0E19, 0x0E01, 0x0E32, 0x0E23, 0x0E40, 0x0E0A, 0x0E37,
      0x0E48, 0x0E2D, 0x0E21, 0x0E15, 0x0E48, 0x0E2D, 0x0020, 0x0041, 0x0049]"

text \<open>Line 193 ("authentication problem, please contact the administrator").\<close>

definition MSG_UPSTREAM_AUTH :: js_string where
  "MSG_UPSTREAM_AUTH =
     [0x0E1B, 0x0E31, 0x0E0D, 0x0E2B, 0x0E32, 0x0E01, 0x0E32, 0x0E23, 0x0E22, 0x0E37, 0x0E19,
      0x0E22, 0x0E31, 0x0E19, 0x0E15, 0x0E31, 0x0E27, 0x0E15, 0x0E19, 0x0020, 0x0E01, 0x0E23,
      0x0E38, 0x0E13, 0x0E32, 0x0E15, 0x0E34, 0x0E14, 0x0E15, 0x0E48, 0x0E2D, 0x0E1C, 0x0E39,
      0x0E49, 0x0E14, 0x0E39, 0x0E41, 0x0E25, 0x0E23, 0x0E30, 0x0E1A, 0x0E1A]"

text \<open>Line 195 ("the AI is overloaded, please wait a moment and try again").\<close>

definition MSG_UPSTREAM_BUSY :: js_string where
  "MSG_UPSTREAM_BUSY =
     [0x0041, 0x0049, 0x0020, 0x0E43, 0x0E0A, 0x0E49, 0x0E07, 0x0E32, 0x0E19, 0x0E2B, 0x0E19,
      0x0E31, 0x0E01, 0x0E40, 0x0E01, 0x0E34, 0x0E19, 0x0E44, 0x0E1B, 0x0020, 0x0E01, 0x0E23,
      0x0E38, 0x0E13, 0x0E32, 0x0E23, 0x0E2D, 0x0E2A, 0x0E31, 0x0E01, 0x0E04, 0x0E23, 0x0E39,
      0x0E48, 0x0E41, 0x0E25, 0x0E49, 0x0E27, 0x0E25, 0x0E2D, 0x0E07, 0x0E43, 0x0E2B, 0x0E21,
      0x0E48]"

text \<open>Line 197 ("the question is not valid, please try again").\<close>

definition MSG_UPSTREAM_BAD_REQUEST :: js_string where
  "MSG_UPSTREAM_BAD_REQUEST =
     [0x0E04, 0x0E33, 0x0E16, 0x0E32, 0x0E21, 0x0E44, 0x0E21, 0x0E48, 0x0E16, 0x0E39, 0x0E01,
      0x0E15, 0x0E49, 0x0E2D, 0x0E07, 0x0020, 0x0E01, 0x0E23, 0x0E38, 0x0E13, 0x0E32, 0x0E25,
      0x0E2D, 0x0E07, 0x0E43, 0x0E2B, 0x0E21, 0x0E48]"

text \<open>Line 208 ("incomplete data received from the AI").\<close>

definition MSG_INCOMPLETE :: js_string where
  "MSG_INCOMPLETE =
     [0x0E44, 0x0E14, 0x0E49, 0x0E23, 0x0E31, 0x0E1A, 0x0E02, 0x0E49, 0x0E2D, 0x0E21, 0x0E39,
      0x0E25, 0x0E44, 0x0E21, 0x0E48, 0x0E04, 0x0E23, 0x0E1A, 0x0E16, 0x0E49, 0x0E27, 0x0E19,
      0x0E08, 0x0E32, 0x0E01, 0x0020, 0x0041, 0x0049]"

text \<open>Line 217 ("an error occurred inside the server").\<close>

definition MSG_SERVER_ERROR :: js_string where
  "MSG_SERVER_ERROR =
     [0x0E40, 0x0E01, 0x0E34, 0x0E14, 0x0E02, 0x0E49, 0x0E2D, 0x0E1C, 0x0E34, 0x0E14, 0x0E1E,
      0x0E25, 0x0E32, 0x0E14, 0x0E20, 0x0E32, 0x0E22, 0x0E43, 0x0E19, 0x0E40, 0x0E0B, 0x0E34,
      0x0E23, 0x0E4C, 0x0E1F, 0x0E40, 0x0E27, 0x0E2D, 0x0E23, 0x0E4C]"

text \<open>Line 246 ("an error occurred while creating the image").\<close>

definition MSG_IMAGE_ERROR :: js_string where
  "MSG_IMAGE_ERROR =
     [0x0E40, 0x0E01, 0x0E34, 0x0E14, 0x0E02, 0x0E49, 0x0E2D, 0x0E1C, 0x0E34, 0x0E14, 0x0E1E,
      0x0E25, 0x0E32, 0x0E14, 0x0E43, 0x0E19, 0x0E01, 0x0E32, 0x0E23, 0x0E2A, 0x0E23, 0x0E49,
      0x0E32, 0x0E07, 0x0E20, 0x0E32, 0x0E1E]"

text \<open>Line 286 ("an unexpected error occurred").\<close>

definition MSG_UNEXPECTED :: js_string where
  "MSG_UNEXPECTED =
     [0x0E40, 0x0E01, 0x0E34, 0x0E14, 0x0E02, 0x0E49, 0x0E2D, 0x0E1C, 0x0E34, 0x0E14, 0x0E1E,
      0x0E25, 0x0E32, 0x0E14, 0x0E17, 0x0E35, 0x0E48, 0x0E44, 0x0E21, 0x0E48, 0x0E04, 0x0E32,
      0x0E14, 0x0E04, 0x0E34, 0x0E14]"

definition error_response :: "nat \<Rightarrow> js_string \<Rightarrow> http_response" where
  "error_response s msg = \<lparr>status = s, payload = Object [(js ''error'', String msg)]\<rparr>"

section \<open>The image handler\<close>

text \<open>\<open>prompt.replace(/[^\w\s,-]/g, '')\<close>: only a string has the method; calling it on any
  other truthy value is a \<open>TypeError\<close>.\<close>

fun strip_prompt :: "js_value \<Rightarrow> js_error + js_string" where
  "strip_prompt (String s) = Inr (replace_all not_word_space_comma_hyphen [] s)"
| "strip_prompt v = Inl TypeError"

text \<open>\<open>cleanPrompt\<close> of line 233, for a prompt that is a string.\<close>

definition cleanPrompt :: "js_string \<Rightarrow> js_string" where
  "cleanPrompt s = trim (replace_all not_word_space_comma_hyphen [] s)"

definition image_url :: "js_string \<Rightarrow> js_string" where
  "image_url encoded =
     js ''https://image.pollinations.ai/prompt/'' @ encoded
       @ js ''?width=512&height=512&nologo=true&enhance=true''"

text \<open>The \<open>try\<close> block of lines 226 to 241: the answer, or the error thrown.\<close>

definition generate_image_try :: "request \<Rightarrow> js_error + http_response" where
  "generate_image_try req =
     (case get_prop (body req) (js ''prompt'') of
        Inl e \<Rightarrow> Inl e
      | Inr prompt \<Rightarrow>
          if \<not> truthy prompt then Inr (error_response 400 MSG_PROMPT_REQUIRED)
          else
            (case strip_prompt prompt of
               Inl e \<Rightarrow> Inl e
             | Inr stripped \<Rightarrow>
                 (case encodeURIComponent (trim stripped) of
                    Inl e \<Rightarrow> Inl e
                  | Inr encoded \<Rightarrow>
                      Inr \<lparr>status = 200,
                           payload = Object [(js ''success'', Boolean True),
                                             (js ''imageUrl'', String (image_url encoded)),
                                             (js ''prompt'', String (trim stripped))]\<rparr>)))"

text \<open>The handler with its \<open>catch\<close>. It has no call of \<open>fetch\<close>: the list of upstream
  calls it returns is empty.\<close>

definition generate_image_handler :: "request \<Rightarrow> http_response \<times> upstream_request list" where
  "generate_image_handler req =
     (case generate_image_try req of
        Inr response \<Rightarrow> (response, [])
      | Inl e \<Rightarrow> (error_response 500 MSG_IMAGE_ERROR, []))"

section \<open>The chat handler\<close>

text \<open>\<open>!GROQ_API_KEY\<close>: the variable is unset or empty.\<close>

definition env_value :: "js_string option \<Rightarrow> js_value" where
  "env_value v = (case v of None \<Rightarrow> Undefined | Some s \<Rightarrow> String s)"

text \<open>The call of lines 172 to 185.\<close>

definition groq_request :: "js_string \<Rightarrow> js_value \<Rightarrow> upstream_request" where
  "groq_request key messages =
     \<lparr>url = js ''https://api.groq.com/openai/v1/chat/completions'',
      request_method = js ''POST'',
      headers = [(js ''Authorization'', js ''Bearer '' @ key),
                 (js ''Content-Type'', js ''application/json'')],
      json_body = Object [(js ''model'', String (js ''llama3-70b-8192'')),
                          (js ''messages'', messages),
                          (js ''max_tokens'', Number 4000),
                          (js ''temperature'', Number (3 / 10)),
                          (js ''stream'', Boolean False)]\<rparr>"

text \<open>Lines 191 to 198.\<close>

definition errorMessage :: "nat \<Rightarrow> js_string" where
  "errorMessage st =
     (if st = 401 then MSG_UPSTREAM_AUTH
      else if st = 429 then MSG_UPSTREAM_BUSY
      else if st = 400 then MSG_UPSTREAM_BAD_REQUEST
      else MSG_UPSTREAM)"

text \<open>Lines 206 to 212: \<open>!data.choices || !data.choices[0] || !data.choices[0].message\<close>,
  evaluated from left to right, then the answer.\<close>

definition relay :: "js_value \<Rightarrow> js_error + http_response" where
  "relay data =
     (case get_prop data (js ''choices'') of
        Inl e \<Rightarrow> Inl e
      | Inr choices \<Rightarrow>
          if \<not> truthy choices then Inr (error_response 500 MSG_INCOMPLETE)
          else
            (case get_index0 choices of
               Inl e \<Rightarrow> Inl e
             | Inr first \<Rightarrow>
                 if \<not> truthy first then Inr (error_response 500 MSG_INCOMPLETE)
                 else
                   (case get_prop first (js ''message'') of
                      Inl e \<Rightarrow> Inl e
                    | Inr message \<Rightarrow>
                        if \<not> truthy message then Inr (error_response 500 MSG_INCOMPLETE)
                        else Inr \<lparr>status = 200, payload = data\<rparr>)))"

text \<open>
  The \<open>try\<close> block of lines 154 to 212, given what \<open>fetch\<close> does with a call: the answer or
  the error thrown, and the calls of \<open>fetch\<close> made. (The import of node-fetch is taken to
  succeed; what the handler writes to the console is left out.)
\<close>

definition chat_try ::
  "environment \<Rightarrow> (upstream_request \<Rightarrow> upstream_result) \<Rightarrow> request
     \<Rightarrow> (js_error + http_response) \<times> upstream_request list" where
  "chat_try env fetch req =
     (if \<not> truthy (env_value (GROQ_API_KEY env)) then (Inr (error_response 500 MSG_CONFIG), [])
      else
        (case get_prop (body req) (js ''messages'') of
           Inl e \<Rightarrow> (Inl e, [])
         | Inr messages \<Rightarrow>
             if \<not> truthy messages \<or> \<not> isArray messages then
               (Inr (error_response 400 MSG_MESSAGES_REQUIRED), [])
             else
               let call = groq_request (the (GROQ_API_KEY env)) messages
               in (case fetch call of
                     Rejects e \<Rightarrow> Inl e
                   | Resolves response \<Rightarrow>
                       if \<not> ok response then
                         (case up_text response of
                            Inl e \<Rightarrow> Inl e
                          | Inr errorData \<Rightarrow>
                              Inr (error_response (up_status response)
                                     (errorMessage (up_status response))))
                       else
                         (case up_json response of
                            Inl e \<Rightarrow> Inl e
                          | Inr data \<Rightarrow> relay data),
                   [call])))"

text \<open>The \<open>catch\<close> of lines 214 to 220; a property whose value is \<open>undefined\<close> is not
  sent.\<close>

definition chat_catch :: "environment \<Rightarrow> js_error \<Rightarrow> http_response" where
  "chat_catch env e =
     \<lparr>status = 500,
      payload = Object ((js ''error'', String MSG_SERVER_ERROR)
                        # (if NODE_ENV env = Some (js ''development'')
                           then [(js ''details'', String (error_message env e))] else []))\<rparr>"

definition chat_handler ::
  "environment \<Rightarrow> (upstream_request \<Rightarrow> upstream_result) \<Rightarrow> request
     \<Rightarrow> http_response \<times> upstream_request list" where
  "chat_handler env fetch req =
     (case chat_try env fetch req of
        (Inr response, calls) \<Rightarrow> (response, calls)
      | (Inl e, calls) \<Rightarrow> (chat_catch env e, calls))"

section \<open>The routes\<close>

text \<open>
  \<open>app.post(path, rateLimitMiddleware, handler)\<close>: the handler runs when the middleware
  calls \<open>next()\<close>; an error thrown by the middleware goes to the error handler of line 283.
  A route returns the answer, the upstream calls made, and the map.
\<close>

definition route ::
  "(request \<Rightarrow> http_response \<times> upstream_request list) \<Rightarrow> request_counts \<Rightarrow> request \<Rightarrow> int
     \<Rightarrow> http_response \<times> upstream_request list \<times> request_counts" where
  "route handler rc req now =
     (case rateLimitMiddleware rc req now of
        (Next, rc') \<Rightarrow> (fst (handler req), snd (handler req), rc')
      | (Responded response, rc') \<Rightarrow> (response, [], rc')
      | (Thrown e, rc') \<Rightarrow> (error_response 500 MSG_UNEXPECTED, [], rc'))"

definition post_api_chat ::
  "environment \<Rightarrow> (upstream_request \<Rightarrow> upstream_result) \<Rightarrow> request_counts \<Rightarrow> request \<Rightarrow> int
     \<Rightarrow> http_response \<times> upstream_request list \<times> request_counts" where
  "post_api_chat env fetch = route (chat_handler env fetch)"

definition post_api_generate_image ::
  "request_counts \<Rightarrow> request \<Rightarrow> int \<Rightarrow> http_response \<times> upstream_request list \<times> request_counts" where
  "post_api_generate_image = route generate_image_handler"

section \<open>The categories of the specification\<close>

text \<open>
  The specification names the outcomes by category. An answer of the server carries its
  category in the message it sends; a success (status 200) has none.
\<close>

datatype category =
    invalid_input
  | configuration
  | auth_failure
  | upstream_overloaded
  | upstream_error
  | malformed_upstream_response
  | internal_error
  | rejected_by_quota

definition category_of_message :: "js_string \<Rightarrow> category option" where
  "category_of_message m =
     (if m = MSG_RATE_LIMIT then Some rejected_by_quota
      else if m = MSG_CONFIG then Some configuration
      else if m = MSG_MESSAGES_REQUIRED \<or> m = MSG_PROMPT_REQUIRED \<or> m = MSG_UPSTREAM_BAD_REQUEST
        then Some invalid_input
      else if m = MSG_UPSTREAM_AUTH then Some auth_failure
      else if m = MSG_UPSTREAM_BUSY then Some upstream_overloaded
      else if m = MSG_UPSTREAM then Some upstream_error
      else if m = MSG_INCOMPLETE then Some malformed_upstream_response
      else if m = MSG_SERVER_ERROR \<or> m = MSG_IMAGE_ERROR \<or> m = MSG_UNEXPECTED
        then Some internal_error
      else None)"

definition category_of :: "http_response \<Rightarrow> category option" where
  "category_of response =
     (if status response = 200 then None
      else (case get_prop (payload response) (js ''error'') of
              Inr (String m) \<Rightarrow> category_of_message m
            | _ \<Rightarrow> None))"

text \<open>The specification's valid shape of a completion: at least one choice with a
  message.\<close>

definition spec_has_choice_with_message :: "js_value \<Rightarrow> bool" where
  "spec_has_choice_with_message data =
     (case get_prop data (js ''choices'') of
        Inr (Array choices) \<Rightarrow>
          list_ex (\<lambda>c. case get_prop c (js ''message'') of Inr m \<Rightarrow> truthy m | Inl e \<Rightarrow> False)
                  choices
      | _ \<Rightarrow> False)"

text \<open>\<open>data.choices[0].message\<close> read leniently: \<open>undefined\<close> where a step of the path is
  missing or falsy.\<close>

definition first_choice_message :: "js_value \<Rightarrow> js_value" where
  "first_choice_message data =
     (case get_prop data (js ''choices'') of
        Inr choices \<Rightarrow>
          if truthy choices then
            (case get_index0 choices of
               Inr first \<Rightarrow>
                 if truthy first then
                   (case get_prop first (js ''message'') of Inr m \<Rightarrow> m | Inl e \<Rightarrow> Undefined)
                 else Undefined
             | Inl e \<Rightarrow> Undefined)
          else Undefined
      | Inl e \<Rightarrow> Undefined)"

section \<open>Example inputs\<close>

text \<open>A map holding one record: the client at 10.0.0.1 has used up its quota in the window
  that ends one hour after the epoch.\<close>

definition exhausted_counts :: request_counts where
  "exhausted_counts = [Some (js ''10.0.0.1'') \<mapsto> \<lparr>count = 50, resetTime = 3600000\<rparr>]"

text \<open>The same client one request short of its quota.\<close>

definition almost_exhausted_counts :: request_counts where
  "almost_exhausted_counts = [Some (js ''10.0.0.1'') \<mapsto> \<lparr>count = 49, resetTime = 3600000\<rparr>]"

text \<open>An environment with a key.\<close>

definition example_env :: environment where
  "example_env = \<lparr>GROQ_API_KEY = Some (js ''gsk_test''), NODE_ENV = Some (js ''production''),
                   error_message = (\<lambda>e. js ''error'')\<rparr>"

text \<open>Requests from 10.0.0.1: an image request with a prompt, a chat request with a value
  for \<open>messages\<close>.\<close>

definition prompt_request :: "string \<Rightarrow> request" where
  "prompt_request p = request_from ''10.0.0.1'' (Object [(js ''prompt'', String (js p))])"

definition chat_request :: "js_value \<Rightarrow> request" where
  "chat_request messages = request_from ''10.0.0.1'' (Object [(js ''messages'', messages)])"

definition hello :: js_value where
  "hello = Object [(js ''role'', String (js ''user'')), (js ''content'', String (js ''hello''))]"

text \<open>A completion with one choice, and one whose only message is in its second choice.\<close>

definition example_completion :: js_value where
  "example_completion =
     Object [(js ''choices'',
              Array [Object [(js ''message'',
                              Object [(js ''role'', String (js ''assistant'')),
                                      (js ''content'', String (js ''hi''))])]])]"

definition second_choice_completion :: js_value where
  "second_choice_completion =
     Object [(js ''choices'',
              Array [Object [],
                     Object [(js ''message'',
                              Object [(js ''role'', String (js ''assistant'')),
                                      (js ''content'', String (js ''hi''))])]])]"

text \<open>An image request whose prompt is the number 42.\<close>

definition number_prompt_request :: request where
  "number_prompt_request = request_from ''10.0.0.1'' (Object [(js ''prompt'', Number 42)])"

text \<open>Bodies of upstream responses, each as its text and what \<open>JSON.parse\<close> makes of it;
  \<open>quoted\<close> writes a string between double quotes.\<close>

definition quoted :: "string \<Rightarrow> js_string" where
  "quoted s = 0x22 # js s @ [0x22]"

definition null_body :: "js_string \<times> (js_error + js_value)" where
  "null_body = (js ''null'', Inr Null)"

definition empty_object_body :: "js_string \<times> (js_error + js_value)" where
  "empty_object_body = (js ''{}'', Inr (Object []))"

definition no_choices_body :: "js_string \<times> (js_error + js_value)" where
  "no_choices_body =
     (js ''{'' @ quoted ''choices'' @ js '':[]}'', Inr (Object [(js ''choices'', Array [])]))"

definition completion_body :: "js_string \<times> (js_error + js_value)" where
  "completion_body =
     (js ''{'' @ quoted ''choices'' @ js '':[{'' @ quoted ''message'' @ js '':{''
        @ quoted ''role'' @ js '':'' @ quoted ''assistant'' @ js '',''
        @ quoted ''content'' @ js '':'' @ quoted ''hi'' @ js ''}}]}'',
      Inr example_completion)"

definition second_choice_body :: "js_string \<times> (js_error + js_value)" where
  "second_choice_body =
     (js ''{'' @ quoted ''choices'' @ js '':[{},{'' @ quoted ''message'' @ js '':{''
        @ quoted ''role'' @ js '':'' @ quoted ''assistant'' @ js '',''
        @ quoted ''content'' @ js '':'' @ quoted ''hi'' @ js ''}}]}'',
      Inr second_choice_completion)"

text \<open>An upstream that answers every call with the same status and body, and one whose
  answer has a body that cannot be read.\<close>

definition always ::
  "nat \<Rightarrow> js_string \<times> (js_error + js_value) \<Rightarrow> upstream_request \<Rightarrow> upstream_result" where
  "always st b call = Resolves \<lparr>up_status = st, up_text = Inr (fst b), up_json = snd b\<rparr>"

definition always_unreadable :: "nat \<Rightarrow> upstream_request \<Rightarrow> upstream_result" where
  "always_unreadable st call =
     Resolves \<lparr>up_status = st, up_text = Inl FetchError, up_json = Inl FetchError\<rparr>"

section \<open>Properties of the rate limiter\<close>

lemma toISOString_in_range:
  "in_date_range t \<Longrightarrow> \<exists>stamp. toISOString t = Inr stamp"
  by (simp add: toISOString_def Let_def split: prod.splits)

lemma gate_other_client:
  "clientIP req \<noteq> c \<Longrightarrow> snd (rateLimitMiddleware rc req now) c = rc c"
  by (simp add: rateLimitMiddleware_def split: option.splits sum.splits)

lemma admitted_in_Nil: "admitted_in c lo hi rc [] = 0"
  by (simp add: admitted_in_def)

lemma admitted_in_Cons:
  "admitted_in c lo hi rc ((req, now) # evs) =
     (if clientIP req = c \<and> lo \<le> now \<and> now \<le> hi \<and> fst (rateLimitMiddleware rc req now) = Next
      then 1 else 0)
     + admitted_in c lo hi (snd (rateLimitMiddleware rc req now)) evs"
  by (simp add: admitted_in_def split: prod.splits)

lemma admitted_in_late:
  "\<forall>t \<in> set (map snd evs). hi < t \<Longrightarrow> admitted_in c lo hi rc evs = 0"
proof (induction evs arbitrary: rc)
  case Nil
  show ?case by (simp add: admitted_in_Nil)
next
  case (Cons ev evs)
  obtain req now where ev: "ev = (req, now)" by (cases ev)
  from Cons.prems ev have "hi < now" by simp
  moreover from Cons.prems have "\<forall>t \<in> set (map snd evs). hi < t" by simp
  ultimately show ?case using Cons.IH ev by (simp add: admitted_in_Cons)
qed

lemma gate_in_window:
  assumes "rc (clientIP req) = Some d" "now \<le> resetTime d"
  shows "rateLimitMiddleware rc req now =
           (if count d < RATE_LIMIT then (Next, rc(clientIP req \<mapsto> d\<lparr>count := count d + 1\<rparr>))
            else (case toISOString (resetTime d) of Inl e \<Rightarrow> Thrown e
                  | Inr stamp \<Rightarrow> Responded \<lparr>status = 429,
                              payload = Object [(js ''error'', String MSG_RATE_LIMIT),
                                                (js ''resetTime'', String stamp)]\<rparr>, rc))"
  using assms by (simp add: rateLimitMiddleware_def split: sum.splits)

lemma gate_opens_window:
  assumes "case rc (clientIP req) of None \<Rightarrow> True | Some d \<Rightarrow> resetTime d < now"
  shows "rateLimitMiddleware rc req now =
           (Next, rc(clientIP req \<mapsto> \<lparr>count = 1, resetTime = now + WINDOW_MS\<rparr>))"
  using assms by (cases "rc (clientIP req)") (simp_all add: rateLimitMiddleware_def)

lemma window_budget:
  "rc c = Some d \<Longrightarrow> resetTime d = hi \<Longrightarrow> count d \<le> RATE_LIMIT \<Longrightarrow> sorted (map snd evs)
   \<Longrightarrow> count d + admitted_in c lo hi rc evs \<le> RATE_LIMIT"
proof (induction evs arbitrary: rc d)
  case Nil
  then show ?case by (simp add: admitted_in_Nil)
next
  case (Cons ev evs)
  obtain req now where ev: "ev = (req, now)" by (cases ev)
  from Cons.prems(4) ev have sorted_tl: "sorted (map snd evs)"
    and later: "\<forall>t \<in> set (map snd evs). now \<le> t" by simp_all
  show ?case
  proof (cases "clientIP req = c")
    case False
    then have "snd (rateLimitMiddleware rc req now) c = Some d"
      using Cons.prems(1) by (simp add: gate_other_client)
    then have "count d + admitted_in c lo hi (snd (rateLimitMiddleware rc req now)) evs
                 \<le> RATE_LIMIT"
      using Cons.prems(2,3) sorted_tl by (rule Cons.IH)
    with False ev show ?thesis by (simp add: admitted_in_Cons)
  next
    case True
    show ?thesis
    proof (cases "now \<le> hi")
      case late: False
      then have "\<forall>t \<in> set (map snd evs). hi < t" using later by auto
      then have "admitted_in c lo hi (snd (rateLimitMiddleware rc req now)) evs = 0"
        by (rule admitted_in_late)
      with late ev Cons.prems(3) show ?thesis by (simp add: admitted_in_Cons)
    next
      case in_window: True
      with True Cons.prems have step: "rateLimitMiddleware rc req now =
           (if count d < RATE_LIMIT then (Next, rc(clientIP req \<mapsto> d\<lparr>count := count d + 1\<rparr>))
            else (case toISOString (resetTime d) of Inl e \<Rightarrow> Thrown e
                  | Inr stamp \<Rightarrow> Responded \<lparr>status = 429,
                              payload = Object [(js ''error'', String MSG_RATE_LIMIT),
                                                (js ''resetTime'', String stamp)]\<rparr>, rc))"
        by (intro gate_in_window) simp_all
      show ?thesis
      proof (cases "count d < RATE_LIMIT")
        case below: True
        let ?d = "d\<lparr>count := count d + 1\<rparr>"
        let ?rc = "rc(clientIP req \<mapsto> ?d)"
        have "?rc c = Some ?d" using True by simp
        moreover have "resetTime ?d = hi" using Cons.prems(2) by simp
        moreover have "count ?d \<le> RATE_LIMIT" using below by simp
        ultimately have "count ?d + admitted_in c lo hi ?rc evs \<le> RATE_LIMIT"
          using sorted_tl by (rule Cons.IH)
        with step below ev True show ?thesis by (auto simp: admitted_in_Cons)
      next
        case full: False
        then have "fst (rateLimitMiddleware rc req now) \<noteq> Next"
          and "snd (rateLimitMiddleware rc req now) = rc"
          using step by (simp_all split: sum.splits)
        moreover have "count d + admitted_in c lo hi rc evs \<le> RATE_LIMIT"
          using Cons.prems(1,2,3) sorted_tl by (rule Cons.IH)
        ultimately show ?thesis using ev by (simp add: admitted_in_Cons)
      qed
    qed
  qed
qed

lemma gate_keeps_bound:
  assumes "\<forall>c d. rc c = Some d \<longrightarrow> count d \<le> RATE_LIMIT"
  shows "\<forall>c d. snd (rateLimitMiddleware rc req now) c = Some d \<longrightarrow> count d \<le> RATE_LIMIT"
proof (intro allI impI)
  fix c d
  assume new: "snd (rateLimitMiddleware rc req now) c = Some d"
  show "count d \<le> RATE_LIMIT"
  proof (cases "clientIP req = c")
    case False
    with new have "rc c = Some d" by (simp add: gate_other_client)
    with assms show ?thesis by blast
  next
    case True
    with new assms show ?thesis
      by (auto simp: rateLimitMiddleware_def RATE_LIMIT_def split: option.splits if_splits sum.splits)
  qed
qed

lemma run_gate_keeps_bound:
  "\<forall>c d. rc c = Some d \<longrightarrow> count d \<le> RATE_LIMIT
   \<Longrightarrow> \<forall>c d. snd (run_gate rc evs) c = Some d \<longrightarrow> count d \<le> RATE_LIMIT"
proof (induction evs arbitrary: rc)
  case Nil
  then show ?case by simp
next
  case (Cons ev evs)
  obtain req now where ev: "ev = (req, now)" by (cases ev)
  have "\<forall>c d. snd (run_gate (snd (rateLimitMiddleware rc req now)) evs) c = Some d
          \<longrightarrow> count d \<le> RATE_LIMIT"
    by (rule Cons.IH) (rule gate_keeps_bound [OF Cons.prems])
  then show ?case using ev by (simp split: prod.splits)
qed

text \<open>
  Claim C1. Take any state of the map and a request that opens a window for its client (the
  client has no record, or its record has expired), at time \<open>t0\<close>, followed by any
  requests of any clients in the order of their arrival times. Of that client's requests
  arriving in \<open>[t0, t0 + WINDOW_MS]\<close>, the opening one included, at most \<open>RATE_LIMIT\<close>
  are admitted. And in every state the middleware reaches from the empty map, every
  record's count is at most \<open>RATE_LIMIT\<close>.
\<close>

theorem quota_never_exceeded:
  "(sorted (map snd ((req, t0) # evs))
      \<and> (case rc (clientIP req) of None \<Rightarrow> True | Some d \<Rightarrow> resetTime d < t0)
    \<longrightarrow> admitted_in (clientIP req) t0 (t0 + WINDOW_MS) rc ((req, t0) # evs) \<le> RATE_LIMIT)
   \<and> (snd (run_gate Map.empty evs') c = Some d' \<longrightarrow> count d' \<le> RATE_LIMIT)"
proof (intro conjI impI)
  assume a: "sorted (map snd ((req, t0) # evs))
      \<and> (case rc (clientIP req) of None \<Rightarrow> True | Some d \<Rightarrow> resetTime d < t0)"
  let ?d = "\<lparr>count = 1, resetTime = t0 + WINDOW_MS\<rparr>"
  let ?rc = "rc(clientIP req \<mapsto> ?d)"
  from a have step: "rateLimitMiddleware rc req t0 = (Next, ?rc)"
    by (intro gate_opens_window) simp
  have "count ?d + admitted_in (clientIP req) t0 (t0 + WINDOW_MS) ?rc evs \<le> RATE_LIMIT"
    using a by (intro window_budget) (simp_all add: RATE_LIMIT_def)
  with step show "admitted_in (clientIP req) t0 (t0 + WINDOW_MS) rc ((req, t0) # evs) \<le> RATE_LIMIT"
    by (simp add: admitted_in_Cons WINDOW_MS_def)
next
  assume "snd (run_gate Map.empty evs') c = Some d'"
  moreover have "\<forall>c d. snd (run_gate Map.empty evs') c = Some d \<longrightarrow> count d \<le> RATE_LIMIT"
    by (rule run_gate_keeps_bound) simp
  ultimately show "count d' \<le> RATE_LIMIT" by blast
qed

theorem quota_never_exceeded_witness:
  "sorted (map snd [(request_from ''10.0.0.1'' Null, 0::int), (request_from ''10.0.0.1'' Null, 5)])
   \<and> (case Map.empty (clientIP (request_from ''10.0.0.1'' Null))
        of None \<Rightarrow> True | Some d \<Rightarrow> resetTime d < 0)
   \<and> admitted_in (clientIP (request_from ''10.0.0.1'' Null)) 0 (0 + WINDOW_MS) Map.empty
        [(request_from ''10.0.0.1'' Null, 0), (request_from ''10.0.0.1'' Null, 5)] \<le> RATE_LIMIT
   \<and> snd (run_gate Map.empty [(request_from ''10.0.0.1'' Null, 0)]) (Some (js ''10.0.0.1''))
       = Some \<lparr>count = 1, resetTime = 3600000\<rparr>
   \<and> count \<lparr>count = 1, resetTime = 3600000\<rparr> \<le> RATE_LIMIT"
  using quota_never_exceeded
    [of "request_from ''10.0.0.1'' Null" 0 "[(request_from ''10.0.0.1'' Null, 5)]" Map.empty
        "[(request_from ''10.0.0.1'' Null, 0)]" "Some (js ''10.0.0.1'')"
        "\<lparr>count = 1, resetTime = 3600000\<rparr>"]
  by (simp add: rateLimitMiddleware_def request_from_def clientIP_def or_else_def js_def
        WINDOW_MS_def)
lemma pad_2: "pad 2 n = [of_nat (48 + n div 10 mod 10), of_nat (48 + n mod 10)]"
proof -
  have "pad (Suc (Suc 0)) n = [of_nat (48 + n div 10 mod 10), of_nat (48 + n mod 10)]"
    by simp
  then show ?thesis by (simp only: numeral_2_eq_2)
qed

lemma pad_3:
  "pad 3 n = [of_nat (48 + n div 10 div 10 mod 10), of_nat (48 + n div 10 mod 10),
              of_nat (48 + n mod 10)]"
proof -
  have "pad (Suc (Suc (Suc 0))) n =
      [of_nat (48 + n div 10 div 10 mod 10), of_nat (48 + n div 10 mod 10),
       of_nat (48 + n mod 10)]"
    by simp
  then show ?thesis by (simp only: numeral_3_eq_3)
qed

lemma pad_4:
  "pad 4 n = [of_nat (48 + n div 10 div 10 div 10 mod 10), of_nat (48 + n div 10 div 10 mod 10),
              of_nat (48 + n div 10 mod 10), of_nat (48 + n mod 10)]"
proof -
  have four: "(4::nat) = Suc (Suc (Suc (Suc 0)))" by simp
  have "pad (Suc (Suc (Suc (Suc 0)))) n =
      [of_nat (48 + n div 10 div 10 div 10 mod 10), of_nat (48 + n div 10 div 10 mod 10),
       of_nat (48 + n div 10 mod 10), of_nat (48 + n mod 10)]"
    by simp
  then show ?thesis by (simp only: four)
qed

lemma civil_from_days_epoch: "civil_from_days 0 = (1970, 1, 1)"
  unfolding civil_from_days_def Let_def by simp

lemma toISOString_one_hour:
  "toISOString 3600000 = Inr (js ''1970-01-01T01:00:00.000Z'')"
  unfolding toISOString_def in_date_range_def Let_def
  by (simp add: civil_from_days_epoch year_string_def pad_2 pad_3 pad_4 js_def)

lemma exhausted_counts_client:
  "exhausted_counts (clientIP (request_from ''10.0.0.1'' b))
     = Some \<lparr>count = 50, resetTime = 3600000\<rparr>"
  by (simp add: exhausted_counts_def request_from_def clientIP_def or_else_def js_def)

lemma gate_on_exhausted:
  "now \<le> 3600000 \<Longrightarrow>
   rateLimitMiddleware exhausted_counts (request_from ''10.0.0.1'' b) now =
     (Responded \<lparr>status = 429,
                  payload = Object [(js ''error'', String MSG_RATE_LIMIT),
                                    (js ''resetTime'', String (js ''1970-01-01T01:00:00.000Z''))]\<rparr>,
      exhausted_counts)"
  using gate_in_window [where rc = exhausted_counts and req = "request_from ''10.0.0.1'' b"
      and d = "\<lparr>count = 50, resetTime = 3600000\<rparr>" and now = now]
  by (simp add: exhausted_counts_client RATE_LIMIT_def toISOString_one_hour)

text \<open>
  Claim C2. The decision of the middleware, by cases. No record: a record with count 1 and
  reset time \<open>now + WINDOW_MS\<close> is created, and the request is admitted. A record with
  \<open>now > resetTime\<close>: the record is replaced in the same way, admitted. A record with
  \<open>now \<le> resetTime\<close> and \<open>count < RATE_LIMIT\<close>: the count goes up by one, admitted.
  Otherwise the request is not admitted and the map stays as it is; the answer is the 429
  response carrying the stored reset time in ISO form (a stored time outside the range of
  \<open>Date\<close> cannot be printed).
\<close>

theorem admit_four_branches:
  "(rc (clientIP req) = None \<longrightarrow>
      rateLimitMiddleware rc req now =
        (Next, rc(clientIP req \<mapsto> \<lparr>count = 1, resetTime = now + WINDOW_MS\<rparr>)))
   \<and> (rc (clientIP req) = Some d \<and> now > resetTime d \<longrightarrow>
      rateLimitMiddleware rc req now =
        (Next, rc(clientIP req \<mapsto> \<lparr>count = 1, resetTime = now + WINDOW_MS\<rparr>)))
   \<and> (rc (clientIP req) = Some d \<and> now \<le> resetTime d \<and> count d < RATE_LIMIT \<longrightarrow>
      rateLimitMiddleware rc req now =
        (Next, rc(clientIP req \<mapsto> d\<lparr>count := count d + 1\<rparr>)))
   \<and> (rc (clientIP req) = Some d \<and> now \<le> resetTime d \<and> \<not> count d < RATE_LIMIT \<longrightarrow>
      fst (rateLimitMiddleware rc req now) \<noteq> Next
      \<and> snd (rateLimitMiddleware rc req now) = rc
      \<and> (in_date_range (resetTime d) \<longrightarrow>
           (\<exists>stamp. toISOString (resetTime d) = Inr stamp
              \<and> rateLimitMiddleware rc req now =
                  (Responded \<lparr>status = 429,
                               payload = Object [(js ''error'', String MSG_RATE_LIMIT),
                                                 (js ''resetTime'', String stamp)]\<rparr>,
                   rc))))"
proof (intro conjI impI)
  assume "rc (clientIP req) = None"
  then show "rateLimitMiddleware rc req now =
        (Next, rc(clientIP req \<mapsto> \<lparr>count = 1, resetTime = now + WINDOW_MS\<rparr>))"
    by (simp add: gate_opens_window)
next
  assume "rc (clientIP req) = Some d \<and> now > resetTime d"
  then show "rateLimitMiddleware rc req now =
        (Next, rc(clientIP req \<mapsto> \<lparr>count = 1, resetTime = now + WINDOW_MS\<rparr>))"
    by (simp add: gate_opens_window)
next
  assume "rc (clientIP req) = Some d \<and> now \<le> resetTime d \<and> count d < RATE_LIMIT"
  then show "rateLimitMiddleware rc req now =
        (Next, rc(clientIP req \<mapsto> d\<lparr>count := count d + 1\<rparr>))"
    by (simp add: gate_in_window)
next
  assume a: "rc (clientIP req) = Some d \<and> now \<le> resetTime d \<and> \<not> count d < RATE_LIMIT"
  then show "fst (rateLimitMiddleware rc req now) \<noteq> Next"
    by (simp add: gate_in_window split: sum.splits)
  from a show "snd (rateLimitMiddleware rc req now) = rc"
    by (simp add: gate_in_window)
  assume "in_date_range (resetTime d)"
  then obtain stamp where "toISOString (resetTime d) = Inr stamp"
    using toISOString_in_range by blast
  with a show "\<exists>stamp. toISOString (resetTime d) = Inr stamp
              \<and> rateLimitMiddleware rc req now =
                  (Responded \<lparr>status = 429,
                               payload = Object [(js ''error'', String MSG_RATE_LIMIT),
                                                 (js ''resetTime'', String stamp)]\<rparr>,
                   rc)"
    by (simp add: gate_in_window)
qed

theorem admit_four_branches_witness:
  "(Map.empty (clientIP (request_from ''10.0.0.1'' Null)) = None
      \<and> rateLimitMiddleware Map.empty (request_from ''10.0.0.1'' Null) 7 =
          (Next, [clientIP (request_from ''10.0.0.1'' Null)
                    \<mapsto> \<lparr>count = 1, resetTime = 7 + WINDOW_MS\<rparr>]))
   \<and> (exhausted_counts (clientIP (request_from ''10.0.0.1'' Null))
          = Some \<lparr>count = 50, resetTime = 3600000\<rparr>
      \<and> 3600001 > resetTime \<lparr>count = 50, resetTime = 3600000\<rparr>
      \<and> rateLimitMiddleware exhausted_counts (request_from ''10.0.0.1'' Null) 3600001 =
          (Next, exhausted_counts(clientIP (request_from ''10.0.0.1'' Null)
                    \<mapsto> \<lparr>count = 1, resetTime = 3600001 + WINDOW_MS\<rparr>)))
   \<and> (almost_exhausted_counts (clientIP (request_from ''10.0.0.1'' Null))
          = Some \<lparr>count = 49, resetTime = 3600000\<rparr>
      \<and> 3600000 \<le> resetTime \<lparr>count = 49, resetTime = 3600000\<rparr>
      \<and> count \<lparr>count = 49, resetTime = 3600000\<rparr> < RATE_LIMIT
      \<and> rateLimitMiddleware almost_exhausted_counts (request_from ''10.0.0.1'' Null) 3600000 =
          (Next, almost_exhausted_counts(clientIP (request_from ''10.0.0.1'' Null)
                    \<mapsto> \<lparr>count = 49, resetTime = 3600000\<rparr>\<lparr>count := 49 + 1\<rparr>)))
   \<and> (exhausted_counts (clientIP (request_from ''10.0.0.1'' Null))
          = Some \<lparr>count = 50, resetTime = 3600000\<rparr>
      \<and> 3600000 \<le> resetTime \<lparr>count = 50, resetTime = 3600000\<rparr>
      \<and> \<not> count \<lparr>count = 50, resetTime = 3600000\<rparr> < RATE_LIMIT
      \<and> in_date_range (resetTime \<lparr>count = 50, resetTime = 3600000\<rparr>)
      \<and> fst (rateLimitMiddleware exhausted_counts (request_from ''10.0.0.1'' Null) 3600000) \<noteq> Next
      \<and> snd (rateLimitMiddleware exhausted_counts (request_from ''10.0.0.1'' Null) 3600000)
          = exhausted_counts
      \<and> (\<exists>stamp. toISOString (resetTime \<lparr>count = 50, resetTime = 3600000\<rparr>) = Inr stamp
            \<and> rateLimitMiddleware exhausted_counts (request_from ''10.0.0.1'' Null) 3600000 =
                (Responded \<lparr>status = 429,
                             payload = Object [(js ''error'', String MSG_RATE_LIMIT),
                                               (js ''resetTime'', String stamp)]\<rparr>,
                 exhausted_counts)))"
proof -
  let ?req = "request_from ''10.0.0.1'' Null"
  let ?full = "\<lparr>count = 50, resetTime = 3600000\<rparr>"
  let ?nearly = "\<lparr>count = 49, resetTime = 3600000\<rparr>"
  have none: "Map.empty (clientIP ?req) = None" by simp
  have full: "exhausted_counts (clientIP ?req) = Some ?full"
    by (rule exhausted_counts_client)
  have nearly: "almost_exhausted_counts (clientIP ?req) = Some ?nearly"
    by (simp add: almost_exhausted_counts_def request_from_def clientIP_def or_else_def js_def)
  have below: "count ?nearly < RATE_LIMIT" and at_limit: "\<not> count ?full < RATE_LIMIT"
    and in_range: "in_date_range (resetTime ?full)"
    by (simp_all add: RATE_LIMIT_def in_date_range_def)
  have late: "3600001 > resetTime ?full" and in_window: "3600000 \<le> resetTime ?full"
    and in_window': "3600000 \<le> resetTime ?nearly"
    by simp_all
  note first = admit_four_branches [where rc = Map.empty and req = ?req and now = 7]
  note second = admit_four_branches [where rc = exhausted_counts and req = ?req
      and d = ?full and now = 3600001]
  note third = admit_four_branches [where rc = almost_exhausted_counts and req = ?req
      and d = ?nearly and now = 3600000]
  note fourth = admit_four_branches [where rc = exhausted_counts and req = ?req
      and d = ?full and now = 3600000]
  have w1: "rateLimitMiddleware Map.empty ?req 7 =
      (Next, [clientIP ?req \<mapsto> \<lparr>count = 1, resetTime = 7 + WINDOW_MS\<rparr>])"
    by (rule first [THEN conjunct1, THEN mp, OF none])
  have w2: "rateLimitMiddleware exhausted_counts ?req 3600001 =
      (Next, exhausted_counts(clientIP ?req \<mapsto> \<lparr>count = 1, resetTime = 3600001 + WINDOW_MS\<rparr>))"
    by (rule second [THEN conjunct2, THEN conjunct1, THEN mp, OF conjI [OF full late]])
  have w3: "rateLimitMiddleware almost_exhausted_counts ?req 3600000 =
      (Next, almost_exhausted_counts(clientIP ?req \<mapsto> ?nearly\<lparr>count := count ?nearly + 1\<rparr>))"
    by (rule third [THEN conjunct2, THEN conjunct2, THEN conjunct1, THEN mp,
          OF conjI [OF nearly conjI [OF in_window' below]]])
  have w4: "fst (rateLimitMiddleware exhausted_counts ?req 3600000) \<noteq> Next
      \<and> snd (rateLimitMiddleware exhausted_counts ?req 3600000) = exhausted_counts
      \<and> (in_date_range (resetTime ?full) \<longrightarrow>
           (\<exists>stamp. toISOString (resetTime ?full) = Inr stamp
              \<and> rateLimitMiddleware exhausted_counts ?req 3600000 =
                  (Responded \<lparr>status = 429,
                               payload = Object [(js ''error'', String MSG_RATE_LIMIT),
                                                 (js ''resetTime'', String stamp)]\<rparr>,
                   exhausted_counts)))"
    by (rule fourth [THEN conjunct2, THEN conjunct2, THEN conjunct2, THEN mp,
          OF conjI [OF full conjI [OF in_window at_limit]]])
  have w5: "\<exists>stamp. toISOString (resetTime ?full) = Inr stamp
              \<and> rateLimitMiddleware exhausted_counts ?req 3600000 =
                  (Responded \<lparr>status = 429,
                               payload = Object [(js ''error'', String MSG_RATE_LIMIT),
                                                 (js ''resetTime'', String stamp)]\<rparr>,
                   exhausted_counts)"
    by (rule w4 [THEN conjunct2, THEN conjunct2, THEN mp, OF in_range])
  have w3': "rateLimitMiddleware almost_exhausted_counts ?req 3600000 =
      (Next, almost_exhausted_counts(clientIP ?req \<mapsto> ?nearly\<lparr>count := 49 + 1\<rparr>))"
    using w3 by simp
  have w4a: "fst (rateLimitMiddleware exhausted_counts ?req 3600000) \<noteq> Next"
    by (rule w4 [THEN conjunct1])
  have w4b: "snd (rateLimitMiddleware exhausted_counts ?req 3600000) = exhausted_counts"
    by (rule w4 [THEN conjunct2, THEN conjunct1])
  show ?thesis
    by (intro conjI none w1 full late w2 nearly in_window' below w3' in_window at_limit in_range
          w4a w4b w5)
qed

text \<open>
  Claim C3. When the middleware answers with a rejection, the client has a record, the
  answer has status 429 and its \<open>resetTime\<close> is the ISO form of the reset time stored in
  that record; and the next request of that client (in any state of the map in which its
  record is still the same), arriving at any time after the stored reset time, is admitted
  and leaves a record with count 1.
\<close>

theorem rejection_reports_reset_time:
  assumes "rateLimitMiddleware rc req now = (Responded r, rc')"
  shows "\<exists>d stamp. rc' (clientIP req) = Some d
           \<and> toISOString (resetTime d) = Inr stamp
           \<and> status r = 429
           \<and> get_prop (payload r) (js ''resetTime'') = Inr (String stamp)
           \<and> (\<forall>rc2 req2 now2.
                 rc2 (clientIP req) = Some d \<and> clientIP req2 = clientIP req \<and> now2 > resetTime d
                 \<longrightarrow> rateLimitMiddleware rc2 req2 now2 =
                       (Next, rc2(clientIP req \<mapsto> \<lparr>count = 1, resetTime = now2 + WINDOW_MS\<rparr>)))"
proof (cases "rc (clientIP req)")
  case None
  with assms show ?thesis by (simp add: rateLimitMiddleware_def)
next
  case (Some d)
  with assms obtain stamp where stamp: "toISOString (resetTime d) = Inr stamp"
    and r: "r = \<lparr>status = 429,
                  payload = Object [(js ''error'', String MSG_RATE_LIMIT),
                                    (js ''resetTime'', String stamp)]\<rparr>"
    and rc': "rc' = rc"
    by (auto simp: rateLimitMiddleware_def split: if_splits sum.splits)
  have "get_prop (payload r) (js ''resetTime'') = Inr (String stamp)"
    by (simp add: r js_def)
  moreover have "rateLimitMiddleware rc2 req2 now2 =
      (Next, rc2(clientIP req \<mapsto> \<lparr>count = 1, resetTime = now2 + WINDOW_MS\<rparr>))"
    if "rc2 (clientIP req) = Some d \<and> clientIP req2 = clientIP req \<and> now2 > resetTime d"
    for rc2 req2 now2
    using that gate_opens_window [where rc = rc2 and req = req2 and now = now2] by simp
  ultimately show ?thesis using Some stamp r rc' by auto
qed

theorem rejection_reports_reset_time_witness:
  "rateLimitMiddleware exhausted_counts (request_from ''10.0.0.1'' Null) 1000 =
     (Responded \<lparr>status = 429,
                  payload = Object [(js ''error'', String MSG_RATE_LIMIT),
                                    (js ''resetTime'', String (js ''1970-01-01T01:00:00.000Z''))]\<rparr>,
      exhausted_counts)
   \<and> (\<exists>d stamp. exhausted_counts (clientIP (request_from ''10.0.0.1'' Null)) = Some d
         \<and> toISOString (resetTime d) = Inr stamp
         \<and> get_prop (Object [(js ''error'', String MSG_RATE_LIMIT),
                               (js ''resetTime'', String (js ''1970-01-01T01:00:00.000Z''))])
               (js ''resetTime'') = Inr (String stamp)
         \<and> rateLimitMiddleware exhausted_counts (request_from ''10.0.0.1'' Null)
               (resetTime d + 1) =
             (Next, exhausted_counts(clientIP (request_from ''10.0.0.1'' Null)
                      \<mapsto> \<lparr>count = 1, resetTime = resetTime d + 1 + WINDOW_MS\<rparr>)))"
proof -
  have rej: "rateLimitMiddleware exhausted_counts (request_from ''10.0.0.1'' Null) 1000 =
     (Responded \<lparr>status = 429,
                  payload = Object [(js ''error'', String MSG_RATE_LIMIT),
                                    (js ''resetTime'', String (js ''1970-01-01T01:00:00.000Z''))]\<rparr>,
      exhausted_counts)"
    by (simp add: gate_on_exhausted)
  from rejection_reports_reset_time [OF rej] rej show ?thesis
    by (auto simp del: fun_upd_apply)
qed

text \<open>
  Claim C9. A request that the middleware rejects leaves the whole map as it was: no
  record is added, and neither the count nor the reset time of any record changes.
\<close>

theorem rejection_leaves_counts:
  "rateLimitMiddleware rc req now = (Responded r, rc') \<Longrightarrow> rc' = rc"
  by (auto simp: rateLimitMiddleware_def split: option.splits if_splits sum.splits)

theorem rejection_leaves_counts_witness:
  "rateLimitMiddleware exhausted_counts (request_from ''10.0.0.1'' Null) 2000 =
     (Responded \<lparr>status = 429,
                  payload = Object [(js ''error'', String MSG_RATE_LIMIT),
                                    (js ''resetTime'', String (js ''1970-01-01T01:00:00.000Z''))]\<rparr>,
      exhausted_counts)
   \<and> exhausted_counts = exhausted_counts"
  using rejection_leaves_counts [where rc = exhausted_counts
      and req = "request_from ''10.0.0.1'' Null" and now = 2000 and rc' = exhausted_counts]
  by (simp add: gate_on_exhausted)
section \<open>Properties of the image handler\<close>

lemma replace_all_empty: "replace_all cls [] s = filter (\<lambda>c. \<not> cls c) s"
  by (induction s) simp_all

lemma cleanPrompt_filter:
  "cleanPrompt s = trim (filter (\<lambda>c. is_word c \<or> is_space c \<or> c = 0x2C \<or> c = 0x2D) s)"
  by (simp add: cleanPrompt_def replace_all_empty not_word_space_comma_hyphen_def)

lemma set_trim: "set (trim s) \<subseteq> set s"
proof -
  have "set (dropWhile is_space (rev (dropWhile is_space s))) \<subseteq> set (rev (dropWhile is_space s))"
    by (auto dest: set_dropWhileD)
  also have "\<dots> \<subseteq> set s"
    by (auto dest: set_dropWhileD)
  finally show ?thesis by (simp add: trim_def)
qed

lemma last_dropWhile: "dropWhile P xs \<noteq> [] \<Longrightarrow> last (dropWhile P xs) = last xs"
  by (induction xs) (auto split: if_splits)

lemma trim_ends:
  assumes "trim s \<noteq> []"
  shows "\<not> is_space (hd (trim s))" and "\<not> is_space (last (trim s))"
proof -
  let ?xs = "dropWhile is_space s"
  let ?ys = "dropWhile is_space (rev ?xs)"
  from assms have ys: "?ys \<noteq> []" by (simp add: trim_def)
  have xs: "?xs \<noteq> []"
  proof
    assume "?xs = []"
    then have "?ys = []" by (simp only: rev.simps dropWhile.simps)
    with ys show False by contradiction
  qed
  have "hd (trim s) = last ?ys" using ys by (simp add: trim_def hd_rev)
  also have "\<dots> = last (rev ?xs)" using ys by (rule last_dropWhile)
  also have "\<dots> = hd ?xs" using xs by (simp add: last_rev)
  finally show "\<not> is_space (hd (trim s))" using xs by (simp add: hd_dropWhile)
  have "last (trim s) = hd ?ys" using ys by (simp add: trim_def last_rev)
  then show "\<not> is_space (last (trim s))" using ys by (simp add: hd_dropWhile)
qed

lemma trim_all_space:
  assumes "\<forall>c \<in> set s. is_space c"
  shows "trim s = []"
proof -
  from assms have "dropWhile is_space s = []" by simp
  then show ?thesis by (simp only: trim_def rev.simps dropWhile.simps)
qed

lemma cleanPrompt_allowed:
  "c \<in> set (cleanPrompt s) \<Longrightarrow> is_word c \<or> is_space c \<or> c = 0x2C \<or> c = 0x2D"
  using set_trim [of "filter (\<lambda>c. is_word c \<or> is_space c \<or> c = 0x2C \<or> c = 0x2D) s"]
  by (auto simp: cleanPrompt_filter)

lemma allowed_not_surrogate:
  "is_word c \<or> is_space c \<or> c = 0x2C \<or> c = 0x2D \<Longrightarrow> \<not> high_surrogate c \<and> \<not> low_surrogate c"
  by (auto simp: is_word_def is_space_def high_surrogate_def low_surrogate_def Let_def)

lemma encodeURIComponent_no_surrogates:
  "\<forall>c \<in> set s. \<not> high_surrogate c \<and> \<not> low_surrogate c \<Longrightarrow> \<exists>encoded. encodeURIComponent s = Inr encoded"
  by (induction s) auto

lemma encodeURIComponent_cleanPrompt: "\<exists>encoded. encodeURIComponent (cleanPrompt s) = Inr encoded"
proof (rule encodeURIComponent_no_surrogates, rule ballI)
  fix c
  assume "c \<in> set (cleanPrompt s)"
  then have "is_word c \<or> is_space c \<or> c = 0x2C \<or> c = 0x2D"
    by (rule cleanPrompt_allowed)
  then show "\<not> high_surrogate c \<and> \<not> low_surrogate c"
    by (rule allowed_not_surrogate)
qed

lemma route_admitted:
  "rateLimitMiddleware rc req now = (Next, rc') \<Longrightarrow>
   route handler rc req now = (fst (handler req), snd (handler req), rc')"
  by (simp add: route_def)

lemma generate_image_string:
  assumes "get_prop (body req) (js ''prompt'') = Inr (String s)" and "s \<noteq> []"
    and "encodeURIComponent (cleanPrompt s) = Inr encoded"
  shows "generate_image_handler req =
           (\<lparr>status = 200,
             payload = Object [(js ''success'', Boolean True),
                               (js ''imageUrl'', String (image_url encoded)),
                               (js ''prompt'', String (cleanPrompt s))]\<rparr>, [])"
  using assms by (simp add: generate_image_handler_def generate_image_try_def cleanPrompt_def)

lemma generate_image_falsy:
  assumes "get_prop (body req) (js ''prompt'') = Inr p" and "\<not> truthy p"
  shows "generate_image_handler req = (error_response 400 MSG_PROMPT_REQUIRED, [])"
  using assms by (simp add: generate_image_handler_def generate_image_try_def)

text \<open>A truthy prompt that is not a string has no \<open>replace\<close>: the call throws, and the
  \<open>catch\<close> answers.\<close>

lemma generate_image_not_string:
  assumes "get_prop (body req) (js ''prompt'') = Inr p" and "truthy p" and "\<not> isString p"
  shows "generate_image_handler req = (error_response 500 MSG_IMAGE_ERROR, [])"
  using assms by (cases p) (simp_all add: generate_image_handler_def generate_image_try_def)

lemma category_prompt_required:
  "category_of (error_response 400 MSG_PROMPT_REQUIRED) = Some invalid_input"
  by (simp add: category_of_def error_response_def category_of_message_def js_def
        MSG_PROMPT_REQUIRED_def MSG_RATE_LIMIT_def MSG_CONFIG_def MSG_MESSAGES_REQUIRED_def)

lemma category_image_error:
  "category_of (error_response 500 MSG_IMAGE_ERROR) = Some internal_error"
  by (simp add: category_of_def error_response_def category_of_message_def js_def
        MSG_IMAGE_ERROR_def MSG_SERVER_ERROR_def MSG_INCOMPLETE_def MSG_UPSTREAM_def
        MSG_UPSTREAM_BUSY_def MSG_UPSTREAM_AUTH_def MSG_RATE_LIMIT_def MSG_CONFIG_def
        MSG_MESSAGES_REQUIRED_def MSG_PROMPT_REQUIRED_def MSG_UPSTREAM_BAD_REQUEST_def)

lemma cleanPrompt_cat:
  "cleanPrompt (js ''a cat! @#$ sitting, on-a-mat'') = js ''a cat  sitting, on-a-mat''"
  by (simp add: cleanPrompt_def not_word_space_comma_hyphen_def is_word_def is_space_def
        trim_def js_def)

text \<open>
  Claim C5, as the code has it. The sanitizer maps \<open>a cat! @#$ sitting, on-a-mat\<close> to
  \<open>a cat  sitting, on-a-mat\<close>, with both spaces that surrounded the removed characters.
  In general the result is the input without the code units outside the whitelist (word
  characters, white space, comma, hyphen), trimmed: it holds whitelisted code units only,
  and it neither starts nor ends with white space.
\<close>

theorem sanitizer_keeps_whitelist:
  "cleanPrompt (js ''a cat! @#$ sitting, on-a-mat'') = js ''a cat  sitting, on-a-mat''
   \<and> cleanPrompt s = trim (filter (\<lambda>c. is_word c \<or> is_space c \<or> c = 0x2C \<or> c = 0x2D) s)
   \<and> (\<forall>c \<in> set (cleanPrompt s). is_word c \<or> is_space c \<or> c = 0x2C \<or> c = 0x2D)
   \<and> (cleanPrompt s \<noteq> [] \<longrightarrow>
        \<not> is_space (hd (cleanPrompt s)) \<and> \<not> is_space (last (cleanPrompt s)))"
proof (intro conjI ballI impI)
  show "cleanPrompt (js ''a cat! @#$ sitting, on-a-mat'') = js ''a cat  sitting, on-a-mat''"
    by (rule cleanPrompt_cat)
  show "cleanPrompt s = trim (filter (\<lambda>c. is_word c \<or> is_space c \<or> c = 0x2C \<or> c = 0x2D) s)"
    by (rule cleanPrompt_filter)
  show "is_word c \<or> is_space c \<or> c = 0x2C \<or> c = 0x2D" if "c \<in> set (cleanPrompt s)" for c
    using that by (rule cleanPrompt_allowed)
  assume "cleanPrompt s \<noteq> []"
  then show "\<not> is_space (hd (cleanPrompt s))" and "\<not> is_space (last (cleanPrompt s))"
    by (simp_all add: cleanPrompt_def trim_ends)
qed

lemma cleanPrompt_hi: "cleanPrompt (js '' hi! '') = js ''hi''"
  by (simp add: cleanPrompt_def not_word_space_comma_hyphen_def is_word_def is_space_def
        trim_def js_def)

theorem sanitizer_keeps_whitelist_witness:
  "cleanPrompt (js '' hi! '') = js ''hi''
   \<and> 0x68 \<in> set (cleanPrompt (js '' hi! ''))
   \<and> (is_word 0x68 \<or> is_space 0x68 \<or> (0x68 :: code_unit) = 0x2C \<or> (0x68 :: code_unit) = 0x2D)
   \<and> cleanPrompt (js '' hi! '') \<noteq> []
   \<and> \<not> is_space (hd (cleanPrompt (js '' hi! '')))
   \<and> \<not> is_space (last (cleanPrompt (js '' hi! '')))"
proof -
  have ne: "cleanPrompt (js '' hi! '') \<noteq> []"
    and h: "0x68 \<in> set (cleanPrompt (js '' hi! ''))"
    unfolding cleanPrompt_hi by (simp_all add: js_def)
  from sanitizer_keeps_whitelist [of "js '' hi! ''"] ne h cleanPrompt_hi show ?thesis
    by blast
qed

theorem sanitizer_example_counterexample:
  "cleanPrompt (js ''a cat! @#$ sitting, on-a-mat'') \<noteq> js ''a cat sitting, on-a-mat''"
  unfolding cleanPrompt_cat by (simp add: js_def)

text \<open>
  Claim C8, as the code has it. An admitted image request whose prompt is a non-empty string
  is answered with status 200, the URL made of the fixed prefix, the URL-encoded sanitized
  prompt and the fixed parameters \<open>width=512&height=512&nologo=true&enhance=true\<close>, and the
  sanitized prompt; encoding the sanitized prompt never fails. An admitted request whose
  prompt is absent, the empty string or another falsy value is answered with status 400,
  and one whose prompt is a truthy value that is not a string with status 500. The route
  makes no upstream call.
\<close>

theorem image_request_answer:
  assumes "rateLimitMiddleware rc req now = (Next, rc')"
    and "get_prop (body req) (js ''prompt'') = Inr p"
  shows "(\<forall>s. p = String s \<and> s \<noteq> [] \<longrightarrow>
            (\<exists>encoded. encodeURIComponent (cleanPrompt s) = Inr encoded
               \<and> post_api_generate_image rc req now =
                   (\<lparr>status = 200,
                     payload = Object [(js ''success'', Boolean True),
                                       (js ''imageUrl'',
                                        String (js ''https://image.pollinations.ai/prompt/''
                                                @ encoded
                                                @ js ''?width=512&height=512&nologo=true&enhance=true'')),
                                       (js ''prompt'', String (cleanPrompt s))]\<rparr>,
                    [], rc')))
         \<and> (\<not> truthy p \<longrightarrow>
              post_api_generate_image rc req now =
                (error_response 400 MSG_PROMPT_REQUIRED, [], rc')
              \<and> category_of (error_response 400 MSG_PROMPT_REQUIRED) = Some invalid_input)
         \<and> (truthy p \<and> \<not> isString p \<longrightarrow>
              post_api_generate_image rc req now =
                (error_response 500 MSG_IMAGE_ERROR, [], rc')
              \<and> category_of (error_response 500 MSG_IMAGE_ERROR) = Some internal_error)
         \<and> fst (snd (post_api_generate_image rc req now)) = []"
proof (intro conjI allI impI)
  fix s
  assume s: "p = String s \<and> s \<noteq> []"
  obtain encoded where enc: "encodeURIComponent (cleanPrompt s) = Inr encoded"
    using encodeURIComponent_cleanPrompt by blast
  from s assms(2) have "generate_image_handler req =
           (\<lparr>status = 200,
             payload = Object [(js ''success'', Boolean True),
                               (js ''imageUrl'', String (image_url encoded)),
                               (js ''prompt'', String (cleanPrompt s))]\<rparr>, [])"
    using enc by (intro generate_image_string) simp_all
  with enc show "\<exists>encoded. encodeURIComponent (cleanPrompt s) = Inr encoded
               \<and> post_api_generate_image rc req now =
                   (\<lparr>status = 200,
                     payload = Object [(js ''success'', Boolean True),
                                       (js ''imageUrl'',
                                        String (js ''https://image.pollinations.ai/prompt/''
                                                @ encoded
                                                @ js ''?width=512&height=512&nologo=true&enhance=true'')),
                                       (js ''prompt'', String (cleanPrompt s))]\<rparr>,
                    [], rc')"
    by (simp add: post_api_generate_image_def route_admitted [OF assms(1)] image_url_def)
next
  assume "\<not> truthy p"
  with assms(2) have "generate_image_handler req = (error_response 400 MSG_PROMPT_REQUIRED, [])"
    by (rule generate_image_falsy)
  then show "post_api_generate_image rc req now =
                (error_response 400 MSG_PROMPT_REQUIRED, [], rc')"
    by (simp add: post_api_generate_image_def route_admitted [OF assms(1)])
  show "category_of (error_response 400 MSG_PROMPT_REQUIRED) = Some invalid_input"
    by (rule category_prompt_required)
next
  assume not_string: "truthy p \<and> \<not> isString p"
  have "generate_image_handler req = (error_response 500 MSG_IMAGE_ERROR, [])"
    by (rule generate_image_not_string [OF assms(2)]) (simp_all add: not_string)
  then show "post_api_generate_image rc req now =
                (error_response 500 MSG_IMAGE_ERROR, [], rc')"
    by (simp add: post_api_generate_image_def route_admitted [OF assms(1)])
  show "category_of (error_response 500 MSG_IMAGE_ERROR) = Some internal_error"
    by (rule category_image_error)
next
  show "fst (snd (post_api_generate_image rc req now)) = []"
    by (simp add: post_api_generate_image_def route_admitted [OF assms(1)]
          generate_image_handler_def split: sum.splits)
qed

lemma js_not_empty: "s \<noteq> [] \<Longrightarrow> js s \<noteq> []"
  by (simp add: js_def)

lemma first_request_admitted:
  "rateLimitMiddleware Map.empty req now =
     (Next, [clientIP req \<mapsto> \<lparr>count = 1, resetTime = now + WINDOW_MS\<rparr>])"
  by (rule gate_opens_window) simp

lemma prompt_request_prompt:
  "get_prop (body (prompt_request p)) (js ''prompt'') = Inr (String (js p))"
  by (simp add: prompt_request_def request_from_def js_def)

lemma cleanPrompt_a_cat: "cleanPrompt (js ''a cat'') = js ''a cat''"
  by (simp add: cleanPrompt_def not_word_space_comma_hyphen_def is_word_def is_space_def
        trim_def js_def)

lemma encodeURIComponent_a_cat: "encodeURIComponent (js ''a cat'') = Inr (js ''a%20cat'')"
  by (simp add: uri_unreserved_def low_surrogate_def high_surrogate_def percent_escape_def
        utf8_def hex_digit_def js_def)

lemma number_prompt_request_prompt:
  "get_prop (body number_prompt_request) (js ''prompt'') = Inr (Number 42)"
  by (simp add: number_prompt_request_def request_from_def js_def)

lemma absent_prompt: "get_prop (body (request_from ''10.0.0.1'' (Object []))) (js ''prompt'') = Inr Undefined"
  by (simp add: request_from_def)

theorem image_request_answer_witness:
  "rateLimitMiddleware Map.empty (prompt_request ''a cat'') 0 =
     (Next, [clientIP (prompt_request ''a cat'') \<mapsto> \<lparr>count = 1, resetTime = 0 + WINDOW_MS\<rparr>])
   \<and> get_prop (body (prompt_request ''a cat'')) (js ''prompt'') = Inr (String (js ''a cat''))
   \<and> js ''a cat'' \<noteq> []
   \<and> post_api_generate_image Map.empty (prompt_request ''a cat'') 0 =
       (\<lparr>status = 200,
         payload = Object [(js ''success'', Boolean True),
                           (js ''imageUrl'',
                            String (js ''https://image.pollinations.ai/prompt/'' @ js ''a%20cat''
                                    @ js ''?width=512&height=512&nologo=true&enhance=true'')),
                           (js ''prompt'', String (js ''a cat''))]\<rparr>,
        [], [clientIP (prompt_request ''a cat'') \<mapsto> \<lparr>count = 1, resetTime = 0 + WINDOW_MS\<rparr>])
   \<and> get_prop (body (request_from ''10.0.0.1'' (Object []))) (js ''prompt'') = Inr Undefined
   \<and> \<not> truthy Undefined
   \<and> post_api_generate_image Map.empty (request_from ''10.0.0.1'' (Object [])) 0 =
       (error_response 400 MSG_PROMPT_REQUIRED, [],
        [clientIP (request_from ''10.0.0.1'' (Object []))
           \<mapsto> \<lparr>count = 1, resetTime = 0 + WINDOW_MS\<rparr>])
   \<and> get_prop (body number_prompt_request) (js ''prompt'') = Inr (Number 42)
   \<and> truthy (Number 42) \<and> \<not> isString (Number 42)
   \<and> post_api_generate_image Map.empty number_prompt_request 0 =
       (error_response 500 MSG_IMAGE_ERROR, [],
        [clientIP number_prompt_request \<mapsto> \<lparr>count = 1, resetTime = 0 + WINDOW_MS\<rparr>])"
proof -
  note adm = first_request_admitted [of "prompt_request ''a cat''" 0]
  note pr = prompt_request_prompt [of "''a cat''"]
  have ne: "js ''a cat'' \<noteq> []" by (rule js_not_empty) simp
  from image_request_answer [OF adm pr] ne
  obtain encoded where "encodeURIComponent (cleanPrompt (js ''a cat'')) = Inr encoded"
    and ans: "post_api_generate_image Map.empty (prompt_request ''a cat'') 0 =
       (\<lparr>status = 200,
         payload = Object [(js ''success'', Boolean True),
                           (js ''imageUrl'',
                            String (js ''https://image.pollinations.ai/prompt/'' @ encoded
                                    @ js ''?width=512&height=512&nologo=true&enhance=true'')),
                           (js ''prompt'', String (cleanPrompt (js ''a cat'')))]\<rparr>,
        [], [clientIP (prompt_request ''a cat'') \<mapsto> \<lparr>count = 1, resetTime = 0 + WINDOW_MS\<rparr>])"
    by blast
  then have "encoded = js ''a%20cat''"
    by (simp add: cleanPrompt_a_cat encodeURIComponent_a_cat)
  with ans have string: "post_api_generate_image Map.empty (prompt_request ''a cat'') 0 =
       (\<lparr>status = 200,
         payload = Object [(js ''success'', Boolean True),
                           (js ''imageUrl'',
                            String (js ''https://image.pollinations.ai/prompt/'' @ js ''a%20cat''
                                    @ js ''?width=512&height=512&nologo=true&enhance=true'')),
                           (js ''prompt'', String (js ''a cat''))]\<rparr>,
        [], [clientIP (prompt_request ''a cat'') \<mapsto> \<lparr>count = 1, resetTime = 0 + WINDOW_MS\<rparr>])"
    by (simp only: cleanPrompt_a_cat)
  have falsy: "\<not> truthy Undefined" and number: "truthy (Number 42)" "\<not> isString (Number 42)"
    by simp_all
  note absent = image_request_answer [where now = 0,
      OF first_request_admitted absent_prompt,
      THEN conjunct2, THEN conjunct1, THEN mp, OF falsy, THEN conjunct1]
  note not_string = image_request_answer [where now = 0,
      OF first_request_admitted number_prompt_request_prompt,
      THEN conjunct2, THEN conjunct2, THEN conjunct1, THEN mp,
      OF conjI [OF number], THEN conjunct1]
  show ?thesis
    by (intro conjI adm pr ne string absent_prompt falsy absent number_prompt_request_prompt
          number not_string)
qed

text \<open>A request with the prompt 42, present and not empty, is answered with status 500.\<close>

theorem non_string_prompt_counterexample:
  "get_prop (body number_prompt_request) (js ''prompt'') = Inr (Number 42)
   \<and> truthy (Number 42)
   \<and> rateLimitMiddleware Map.empty number_prompt_request 0 =
       (Next, [clientIP number_prompt_request \<mapsto> \<lparr>count = 1, resetTime = 0 + WINDOW_MS\<rparr>])
   \<and> post_api_generate_image Map.empty number_prompt_request 0 =
       (error_response 500 MSG_IMAGE_ERROR, [],
        [clientIP number_prompt_request \<mapsto> \<lparr>count = 1, resetTime = 0 + WINDOW_MS\<rparr>])
   \<and> status (fst (post_api_generate_image Map.empty number_prompt_request 0)) = 500"
proof -
  have "generate_image_handler number_prompt_request = (error_response 500 MSG_IMAGE_ERROR, [])"
    by (rule generate_image_not_string [OF number_prompt_request_prompt]) simp_all
  then have "post_api_generate_image Map.empty number_prompt_request 0 =
       (error_response 500 MSG_IMAGE_ERROR, [],
        [clientIP number_prompt_request \<mapsto> \<lparr>count = 1, resetTime = 0 + WINDOW_MS\<rparr>])"
    by (simp add: post_api_generate_image_def route_admitted [OF first_request_admitted])
  then show ?thesis
    by (simp add: number_prompt_request_prompt first_request_admitted error_response_def)
qed

lemma cleanPrompt_all_removed:
  assumes "\<forall>c \<in> set s. not_word_space_comma_hyphen c \<or> is_space c"
  shows "cleanPrompt s = []"
proof -
  have "\<forall>c \<in> set (replace_all not_word_space_comma_hyphen [] s). is_space c"
    using assms by (auto simp: replace_all_empty)
  then show ?thesis unfolding cleanPrompt_def by (rule trim_all_space)
qed

text \<open>
  Claim C10. An admitted image request whose prompt is a non-empty string made only of code
  units that the sanitizer removes (code units outside the whitelist, and white space) is
  answered with status 200: the sanitized prompt is the empty string, and the URL has an
  empty prompt segment. Only the raw prompt is tested for emptiness.
\<close>

theorem prompt_sanitized_to_empty:
  assumes "rateLimitMiddleware rc req now = (Next, rc')"
    and "get_prop (body req) (js ''prompt'') = Inr (String s)"
    and "s \<noteq> []"
    and "\<forall>c \<in> set s. not_word_space_comma_hyphen c \<or> is_space c"
  shows "cleanPrompt s = []
         \<and> post_api_generate_image rc req now =
             (\<lparr>status = 200,
               payload = Object [(js ''success'', Boolean True),
                                 (js ''imageUrl'',
                                  String (js ''https://image.pollinations.ai/prompt/''
                                          @ js ''?width=512&height=512&nologo=true&enhance=true'')),
                                 (js ''prompt'', String [])]\<rparr>,
              [], rc')"
proof -
  from assms(4) have empty: "cleanPrompt s = []" by (rule cleanPrompt_all_removed)
  then have "encodeURIComponent (cleanPrompt s) = Inr []" by simp
  with assms(2,3) have "generate_image_handler req =
           (\<lparr>status = 200,
             payload = Object [(js ''success'', Boolean True),
                               (js ''imageUrl'', String (image_url [])),
                               (js ''prompt'', String (cleanPrompt s))]\<rparr>, [])"
    by (rule generate_image_string)
  with empty show ?thesis
    by (simp add: post_api_generate_image_def route_admitted [OF assms(1)] image_url_def)
qed

theorem prompt_sanitized_to_empty_witness:
  "rateLimitMiddleware Map.empty (prompt_request ''! ?'') 0 =
     (Next, [clientIP (prompt_request ''! ?'') \<mapsto> \<lparr>count = 1, resetTime = 0 + WINDOW_MS\<rparr>])
   \<and> get_prop (body (prompt_request ''! ?'')) (js ''prompt'') = Inr (String (js ''! ?''))
   \<and> js ''! ?'' \<noteq> []
   \<and> set (js ''! ?'') = {0x21, 0x20, 0x3F}
   \<and> not_word_space_comma_hyphen 0x21 \<and> is_space 0x20 \<and> not_word_space_comma_hyphen 0x3F
   \<and> cleanPrompt (js ''! ?'') = []
   \<and> post_api_generate_image Map.empty (prompt_request ''! ?'') 0 =
       (\<lparr>status = 200,
         payload = Object [(js ''success'', Boolean True),
                           (js ''imageUrl'',
                            String (js ''https://image.pollinations.ai/prompt/''
                                    @ js ''?width=512&height=512&nologo=true&enhance=true'')),
                           (js ''prompt'', String [])]\<rparr>,
        [], [clientIP (prompt_request ''! ?'') \<mapsto> \<lparr>count = 1, resetTime = 0 + WINDOW_MS\<rparr>])"
proof -
  note adm = first_request_admitted [of "prompt_request ''! ?''" 0]
  note pr = prompt_request_prompt [of "''! ?''"]
  have ne: "js ''! ?'' \<noteq> []" by (rule js_not_empty) simp
  have removed: "\<forall>c \<in> set (js ''! ?''). not_word_space_comma_hyphen c \<or> is_space c"
    by (simp add: js_def not_word_space_comma_hyphen_def is_word_def is_space_def)
  have elems: "set (js ''! ?'') = {0x21, 0x20, 0x3F}"
    by (simp add: js_def)
  have each: "not_word_space_comma_hyphen 0x21" "is_space 0x20" "not_word_space_comma_hyphen 0x3F"
    by (simp_all add: not_word_space_comma_hyphen_def is_word_def is_space_def)
  note result = prompt_sanitized_to_empty [OF adm pr ne removed]
  show ?thesis
    by (intro conjI adm pr ne elems each result [THEN conjunct1] result [THEN conjunct2])
qed
section \<open>Properties of the chat handler\<close>

lemma get_prop_defined:
  "v \<noteq> Null \<Longrightarrow> v \<noteq> Undefined \<Longrightarrow> \<exists>x. get_prop v k = Inr x"
  by (cases v) simp_all

lemma truthy_defined: "truthy v \<Longrightarrow> v \<noteq> Null \<and> v \<noteq> Undefined"
  by (cases v) simp_all

lemma get_index0_defined:
  "v \<noteq> Null \<Longrightarrow> v \<noteq> Undefined \<Longrightarrow> \<exists>x. get_index0 v = Inr x"
  by (cases v) simp_all

lemma relay_first_choice:
  assumes "data \<noteq> Null" and "data \<noteq> Undefined"
  shows "relay data =
           Inr (if truthy (first_choice_message data) then \<lparr>status = 200, payload = data\<rparr>
                else error_response 500 MSG_INCOMPLETE)"
proof -
  obtain choices where choices: "get_prop data (js ''choices'') = Inr choices"
    using get_prop_defined [OF assms] by blast
  show ?thesis
  proof (cases "truthy choices")
    case False
    with choices show ?thesis by (simp add: relay_def first_choice_message_def)
  next
    case True
    then obtain first where first: "get_index0 choices = Inr first"
      using get_index0_defined truthy_defined by blast
    show ?thesis
    proof (cases "truthy first")
      case False
      with choices True first show ?thesis by (simp add: relay_def first_choice_message_def)
    next
      case first_truthy: True
      then obtain m where "get_prop first (js ''message'') = Inr m"
        using get_prop_defined truthy_defined by blast
      with choices True first first_truthy show ?thesis
        by (simp add: relay_def first_choice_message_def)
    qed
  qed
qed

lemma first_choice_message_undefined:
  "data = Null \<or> data = Undefined \<Longrightarrow> first_choice_message data = Undefined"
  by (auto simp: first_choice_message_def)

lemma no_choice_no_first_choice:
  assumes "get_prop data (js ''choices'') = Inr (Array cs)"
    and "\<not> spec_has_choice_with_message data"
  shows "\<not> truthy (first_choice_message data)"
proof (cases cs)
  case Nil
  with assms(1) show ?thesis by (simp add: first_choice_message_def)
next
  case (Cons c rest)
  with assms have no: "\<not> (case get_prop c (js ''message'') of Inr m \<Rightarrow> truthy m | Inl e \<Rightarrow> False)"
    by (simp add: spec_has_choice_with_message_def)
  show ?thesis
  proof (cases "truthy c")
    case False
    with assms(1) Cons show ?thesis by (simp add: first_choice_message_def)
  next
    case True
    then obtain m where "get_prop c (js ''message'') = Inr m"
      using get_prop_defined truthy_defined by blast
    with no assms(1) Cons True show ?thesis by (simp add: first_choice_message_def)
  qed
qed

lemma chat_try_no_key:
  "\<not> truthy (env_value (GROQ_API_KEY env)) \<Longrightarrow>
   chat_try env fetch req = (Inr (error_response 500 MSG_CONFIG), [])"
  by (simp add: chat_try_def)

lemma chat_try_invalid_messages:
  assumes "truthy (env_value (GROQ_API_KEY env))"
    and "get_prop (body req) (js ''messages'') = Inr m"
    and "\<not> truthy m \<or> \<not> isArray m"
  shows "chat_try env fetch req = (Inr (error_response 400 MSG_MESSAGES_REQUIRED), [])"
  using assms by (auto simp: chat_try_def)

lemma isArray_truthy: "isArray m \<Longrightarrow> truthy m"
  by (cases m) simp_all

lemma chat_try_forwarded:
  assumes "truthy (env_value (GROQ_API_KEY env))"
    and "get_prop (body req) (js ''messages'') = Inr m"
    and "isArray m"
  shows "chat_try env fetch req =
           (case fetch (groq_request (the (GROQ_API_KEY env)) m) of
              Rejects e \<Rightarrow> Inl e
            | Resolves response \<Rightarrow>
                if \<not> ok response then
                  (case up_text response of
                     Inl e \<Rightarrow> Inl e
                   | Inr errorData \<Rightarrow>
                       Inr (error_response (up_status response)
                              (errorMessage (up_status response))))
                else (case up_json response of Inl e \<Rightarrow> Inl e | Inr data \<Rightarrow> relay data),
            [groq_request (the (GROQ_API_KEY env)) m])"
  using assms isArray_truthy [OF assms(3)] by (simp add: chat_try_def Let_def)

lemma category_auth: "st \<noteq> 200 \<Longrightarrow> category_of (error_response st MSG_UPSTREAM_AUTH) = Some auth_failure"
  by (simp add: category_of_def error_response_def category_of_message_def js_def
        MSG_UPSTREAM_AUTH_def MSG_RATE_LIMIT_def MSG_CONFIG_def MSG_MESSAGES_REQUIRED_def
        MSG_PROMPT_REQUIRED_def MSG_UPSTREAM_BAD_REQUEST_def)

lemma category_busy:
  "st \<noteq> 200 \<Longrightarrow> category_of (error_response st MSG_UPSTREAM_BUSY) = Some upstream_overloaded"
  by (simp add: category_of_def error_response_def category_of_message_def js_def
        MSG_UPSTREAM_BUSY_def MSG_UPSTREAM_AUTH_def MSG_RATE_LIMIT_def MSG_CONFIG_def
        MSG_MESSAGES_REQUIRED_def MSG_PROMPT_REQUIRED_def MSG_UPSTREAM_BAD_REQUEST_def)

lemma category_bad_request:
  "st \<noteq> 200 \<Longrightarrow> category_of (error_response st MSG_UPSTREAM_BAD_REQUEST) = Some invalid_input"
  by (simp add: category_of_def error_response_def category_of_message_def js_def
        MSG_UPSTREAM_BAD_REQUEST_def MSG_RATE_LIMIT_def MSG_CONFIG_def)

lemma category_upstream:
  "st \<noteq> 200 \<Longrightarrow> category_of (error_response st MSG_UPSTREAM) = Some upstream_error"
  by (simp add: category_of_def error_response_def category_of_message_def js_def
        MSG_UPSTREAM_def MSG_UPSTREAM_BUSY_def MSG_UPSTREAM_AUTH_def MSG_RATE_LIMIT_def
        MSG_CONFIG_def MSG_MESSAGES_REQUIRED_def MSG_PROMPT_REQUIRED_def
        MSG_UPSTREAM_BAD_REQUEST_def)

lemma category_incomplete:
  "category_of (error_response 500 MSG_INCOMPLETE) = Some malformed_upstream_response"
  by (simp add: category_of_def error_response_def category_of_message_def js_def
        MSG_INCOMPLETE_def MSG_UPSTREAM_def MSG_UPSTREAM_BUSY_def MSG_UPSTREAM_AUTH_def
        MSG_RATE_LIMIT_def MSG_CONFIG_def MSG_MESSAGES_REQUIRED_def MSG_PROMPT_REQUIRED_def
        MSG_UPSTREAM_BAD_REQUEST_def)

lemma category_config: "category_of (error_response 500 MSG_CONFIG) = Some configuration"
  by (simp add: category_of_def error_response_def category_of_message_def js_def
        MSG_CONFIG_def MSG_RATE_LIMIT_def)

lemma category_messages_required:
  "category_of (error_response 400 MSG_MESSAGES_REQUIRED) = Some invalid_input"
  by (simp add: category_of_def error_response_def category_of_message_def js_def
        MSG_MESSAGES_REQUIRED_def MSG_CONFIG_def MSG_RATE_LIMIT_def)

lemma category_server_error: "category_of (chat_catch env e) = Some internal_error"
  by (simp add: category_of_def chat_catch_def category_of_message_def js_def
        MSG_SERVER_ERROR_def MSG_INCOMPLETE_def MSG_UPSTREAM_def MSG_UPSTREAM_BUSY_def
        MSG_UPSTREAM_AUTH_def MSG_RATE_LIMIT_def MSG_CONFIG_def MSG_MESSAGES_REQUIRED_def
        MSG_PROMPT_REQUIRED_def MSG_UPSTREAM_BAD_REQUEST_def)
lemma chat_request_messages:
  "get_prop (body (chat_request m)) (js ''messages'') = Inr m"
  by (simp add: chat_request_def request_from_def js_def)

lemma example_env_key:
  "truthy (env_value (GROQ_API_KEY example_env))" "the (GROQ_API_KEY example_env) = js ''gsk_test''"
  by (simp_all add: example_env_def env_value_def js_def)

lemma always_resolves:
  "always st b call = Resolves \<lparr>up_status = st, up_text = Inr (fst b), up_json = snd b\<rparr>"
  by (simp add: always_def)

lemma example_bodies:
  "snd null_body = Inr Null" "snd empty_object_body = Inr (Object [])"
  "snd no_choices_body = Inr (Object [(js ''choices'', Array [])])"
  "snd completion_body = Inr example_completion"
  "snd second_choice_body = Inr second_choice_completion"
  by (simp_all add: null_body_def empty_object_body_def no_choices_body_def completion_body_def
        second_choice_body_def)

lemma chat_handler_forwarded:
  assumes "truthy (env_value (GROQ_API_KEY env))"
    and "get_prop (body req) (js ''messages'') = Inr m"
    and "isArray m"
    and "fetch (groq_request (the (GROQ_API_KEY env)) m) = Resolves response"
  shows "chat_handler env fetch req =
           (if \<not> ok response then
              (case up_text response of
                 Inl e \<Rightarrow> chat_catch env e
               | Inr errorData \<Rightarrow>
                   error_response (up_status response) (errorMessage (up_status response)))
            else (case up_json response of
                    Inl e \<Rightarrow> chat_catch env e
                  | Inr data \<Rightarrow> (case relay data of Inl e \<Rightarrow> chat_catch env e | Inr r \<Rightarrow> r)),
            [groq_request (the (GROQ_API_KEY env)) m])"
  using assms(4)
  by (simp add: chat_handler_def chat_try_forwarded [OF assms(1,2,3)] split: sum.splits)

text \<open>
  Claim C7. When the key is unset or empty, the chat handler answers with status 500 and
  the configuration message and makes no upstream call, whatever the request and whatever
  the upstream would do; so the route makes no upstream call either, and every admitted
  request gets that answer.
\<close>

theorem missing_credential_fails_first:
  assumes "GROQ_API_KEY env = None \<or> GROQ_API_KEY env = Some []"
  shows "chat_handler env fetch req = (error_response 500 MSG_CONFIG, [])
         \<and> category_of (error_response 500 MSG_CONFIG) = Some configuration
         \<and> length (fst (snd (post_api_chat env fetch rc req now))) = 0
         \<and> (fst (rateLimitMiddleware rc req now) = Next \<longrightarrow>
              fst (post_api_chat env fetch rc req now) = error_response 500 MSG_CONFIG)"
proof -
  from assms have "\<not> truthy (env_value (GROQ_API_KEY env))"
    by (auto simp: env_value_def)
  then have handler: "chat_handler env fetch req = (error_response 500 MSG_CONFIG, [])"
    by (simp add: chat_handler_def chat_try_no_key)
  obtain r rc' where gate: "rateLimitMiddleware rc req now = (r, rc')"
    by (cases "rateLimitMiddleware rc req now")
  have "length (fst (snd (post_api_chat env fetch rc req now))) = 0"
    using gate handler by (cases r) (simp_all add: post_api_chat_def route_def)
  moreover have "fst (post_api_chat env fetch rc req now) = error_response 500 MSG_CONFIG"
    if "fst (rateLimitMiddleware rc req now) = Next"
    using that gate handler by (simp add: post_api_chat_def route_def)
  ultimately show ?thesis using handler category_config by blast
qed

theorem missing_credential_fails_first_witness:
  "GROQ_API_KEY (example_env\<lparr>GROQ_API_KEY := None\<rparr>) = None
   \<and> chat_handler (example_env\<lparr>GROQ_API_KEY := None\<rparr>) (always 200 completion_body)
        (chat_request (Array [hello])) = (error_response 500 MSG_CONFIG, [])
   \<and> length (fst (snd (post_api_chat (example_env\<lparr>GROQ_API_KEY := None\<rparr>)
        (always 200 completion_body) Map.empty (chat_request (Array [hello])) 0))) = 0
   \<and> fst (rateLimitMiddleware Map.empty (chat_request (Array [hello])) 0) = Next
   \<and> fst (post_api_chat (example_env\<lparr>GROQ_API_KEY := None\<rparr>)
        (always 200 completion_body) Map.empty (chat_request (Array [hello])) 0)
       = error_response 500 MSG_CONFIG"
proof -
  have unset: "GROQ_API_KEY (example_env\<lparr>GROQ_API_KEY := None\<rparr>) = None" by simp
  have admitted: "fst (rateLimitMiddleware Map.empty (chat_request (Array [hello])) 0) = Next"
    by (simp add: first_request_admitted)
  note result = missing_credential_fails_first [where env = "example_env\<lparr>GROQ_API_KEY := None\<rparr>"
      and fetch = "always 200 completion_body" and req = "chat_request (Array [hello])"
      and rc = Map.empty and now = 0, OF disjI1 [OF unset]]
  show ?thesis
    by (intro conjI unset admitted result [THEN conjunct1]
          result [THEN conjunct2, THEN conjunct2, THEN conjunct1]
          result [THEN conjunct2, THEN conjunct2, THEN conjunct2, THEN mp, OF admitted])
qed

lemma relay_example_completion:
  "relay example_completion = Inr \<lparr>status = 200, payload = example_completion\<rparr>"
  by (simp add: relay_def example_completion_def js_def)

text \<open>
  Claim C4, as the code has it. With the key configured, an admitted chat request whose
  \<open>messages\<close> is absent or otherwise falsy, or is not an array, is answered with status
  400 and the message of an invalid request, and no upstream call is made. Every array,
  the empty one included, passes this check and is sent upstream.
\<close>

theorem invalid_messages_rejected:
  assumes "truthy (env_value (GROQ_API_KEY env))"
    and "rateLimitMiddleware rc req now = (Next, rc')"
    and "get_prop (body req) (js ''messages'') = Inr m"
  shows "(\<not> truthy m \<or> \<not> isArray m \<longrightarrow>
            post_api_chat env fetch rc req now =
              (error_response 400 MSG_MESSAGES_REQUIRED, [], rc')
            \<and> category_of (error_response 400 MSG_MESSAGES_REQUIRED) = Some invalid_input)
         \<and> (isArray m \<longrightarrow>
              fst (snd (post_api_chat env fetch rc req now))
                = [groq_request (the (GROQ_API_KEY env)) m])"
proof (intro conjI impI)
  assume "\<not> truthy m \<or> \<not> isArray m"
  with assms(1,3) have "chat_try env fetch req = (Inr (error_response 400 MSG_MESSAGES_REQUIRED), [])"
    by (rule chat_try_invalid_messages)
  then show "post_api_chat env fetch rc req now =
              (error_response 400 MSG_MESSAGES_REQUIRED, [], rc')"
    by (simp add: post_api_chat_def route_admitted [OF assms(2)] chat_handler_def)
  show "category_of (error_response 400 MSG_MESSAGES_REQUIRED) = Some invalid_input"
    by (rule category_messages_required)
next
  assume "isArray m"
  with assms(1,3) have "snd (chat_try env fetch req) = [groq_request (the (GROQ_API_KEY env)) m]"
    by (simp add: chat_try_forwarded)
  then show "fst (snd (post_api_chat env fetch rc req now))
                = [groq_request (the (GROQ_API_KEY env)) m]"
    by (auto simp: post_api_chat_def route_admitted [OF assms(2)] chat_handler_def
          split: prod.splits sum.splits)
qed

theorem invalid_messages_rejected_witness:
  "truthy (env_value (GROQ_API_KEY example_env))
   \<and> rateLimitMiddleware Map.empty (chat_request Undefined) 0 =
       (Next, [clientIP (chat_request Undefined) \<mapsto> \<lparr>count = 1, resetTime = 0 + WINDOW_MS\<rparr>])
   \<and> get_prop (body (chat_request Undefined)) (js ''messages'') = Inr Undefined
   \<and> \<not> truthy Undefined
   \<and> post_api_chat example_env (always 200 completion_body) Map.empty
        (chat_request Undefined) 0 =
       (error_response 400 MSG_MESSAGES_REQUIRED, [],
        [clientIP (chat_request Undefined) \<mapsto> \<lparr>count = 1, resetTime = 0 + WINDOW_MS\<rparr>])
   \<and> rateLimitMiddleware Map.empty (chat_request (Array [hello])) 0 =
       (Next, [clientIP (chat_request (Array [hello]))
                 \<mapsto> \<lparr>count = 1, resetTime = 0 + WINDOW_MS\<rparr>])
   \<and> get_prop (body (chat_request (Array [hello]))) (js ''messages'') = Inr (Array [hello])
   \<and> isArray (Array [hello])
   \<and> fst (snd (post_api_chat example_env (always 200 completion_body) Map.empty
        (chat_request (Array [hello])) 0))
       = [groq_request (the (GROQ_API_KEY example_env)) (Array [hello])]"
proof -
  note absent = invalid_messages_rejected [where fetch = "always 200 completion_body",
      OF example_env_key(1) first_request_admitted [of "chat_request Undefined" 0]
         chat_request_messages [of Undefined]]
  note array = invalid_messages_rejected [where fetch = "always 200 completion_body",
      OF example_env_key(1) first_request_admitted [of "chat_request (Array [hello])" 0]
         chat_request_messages [of "Array [hello]"]]
  have falsy: "\<not> truthy Undefined" and is_array: "isArray (Array [hello])"
    by simp_all
  show ?thesis
    by (intro conjI example_env_key(1) first_request_admitted chat_request_messages falsy
          is_array absent [THEN conjunct1, THEN mp, OF disjI1 [OF falsy], THEN conjunct1]
          array [THEN conjunct2, THEN mp, OF is_array])
qed

theorem empty_messages_counterexample:
  "get_prop (body (chat_request (Array []))) (js ''messages'') = Inr (Array [])
   \<and> post_api_chat example_env (always 200 completion_body) Map.empty
        (chat_request (Array [])) 0 =
       (\<lparr>status = 200, payload = example_completion\<rparr>,
        [groq_request (js ''gsk_test'') (Array [])],
        [clientIP (chat_request (Array [])) \<mapsto> \<lparr>count = 1, resetTime = 0 + WINDOW_MS\<rparr>])
   \<and> status (fst (post_api_chat example_env (always 200 completion_body) Map.empty
        (chat_request (Array [])) 0)) \<noteq> 400
   \<and> length (fst (snd (post_api_chat example_env (always 200 completion_body) Map.empty
        (chat_request (Array [])) 0))) = 1"
proof -
  have "chat_handler example_env (always 200 completion_body) (chat_request (Array []))
      = (\<lparr>status = 200, payload = example_completion\<rparr>, [groq_request (js ''gsk_test'') (Array [])])"
    using chat_handler_forwarded [OF example_env_key(1) chat_request_messages [of "Array []"] _
        always_resolves [where st = 200 and b = completion_body]]
    by (simp add: example_env_key(2) ok_def example_bodies relay_example_completion)
  then have "post_api_chat example_env (always 200 completion_body) Map.empty
        (chat_request (Array [])) 0 =
       (\<lparr>status = 200, payload = example_completion\<rparr>,
        [groq_request (js ''gsk_test'') (Array [])],
        [clientIP (chat_request (Array [])) \<mapsto> \<lparr>count = 1, resetTime = 0 + WINDOW_MS\<rparr>])"
    by (simp add: post_api_chat_def route_admitted [OF first_request_admitted])
  then show ?thesis by (simp add: chat_request_messages)
qed
lemma example_chat_answer:
  assumes "isArray m"
  shows "fst (post_api_chat example_env (always st b) Map.empty (chat_request m) now) =
           (if \<not> ok \<lparr>up_status = st, up_text = Inr (fst b), up_json = snd b\<rparr>
            then error_response st (errorMessage st)
            else (case snd b of
                    Inl e \<Rightarrow> chat_catch example_env e
                  | Inr data \<Rightarrow>
                      (case relay data of Inl e \<Rightarrow> chat_catch example_env e | Inr r \<Rightarrow> r)))"
  using chat_handler_forwarded [where fetch = "always st b",
      OF example_env_key(1) chat_request_messages assms always_resolves]
  by (simp add: post_api_chat_def route_admitted [OF first_request_admitted])

lemma relay_second_choice:
  "relay second_choice_completion = Inr (error_response 500 MSG_INCOMPLETE)"
  by (simp add: relay_def second_choice_completion_def js_def)

lemma spec_second_choice: "spec_has_choice_with_message second_choice_completion"
  by (simp add: spec_has_choice_with_message_def second_choice_completion_def js_def)

text \<open>When the body of a response with a status outside 200..299 cannot be read,
  \<open>response.text()\<close> throws and the \<open>catch\<close> answers.\<close>

lemma chat_unreadable_error_body:
  assumes "truthy (env_value (GROQ_API_KEY env))"
    and "get_prop (body req) (js ''messages'') = Inr m"
    and "isArray m"
    and "fetch (groq_request (the (GROQ_API_KEY env)) m) = Resolves response"
    and "\<not> ok response" and "up_text response = Inl e"
  shows "fst (chat_handler env fetch req) = chat_catch env e"
  using assms(5,6) by (simp add: chat_handler_forwarded [where fetch = fetch, OF assms(1,2,3,4)])

text \<open>
  Claim C6, as the code has it. For an admitted chat request that reaches the upstream call
  and gets a response. When the status is outside 200..299 and the body of the response can
  be read: status 401 gives the authentication message, 429 the overload message, 400 the
  invalid-question message, any other status the general upstream message, each with the
  upstream status. For a status in 200..299 whose body parses to a value other than
  \<open>null\<close>: when the first choice has no message (no \<open>choices\<close>, no first element, or a
  first element without \<open>message\<close>), and so in particular when \<open>choices\<close> is an array
  without any choice with a message, the answer is status 500 with the message of
  incomplete data; when the first choice has a message, the answer is status 200 with the
  parsed body as it is.
\<close>

theorem upstream_result_mapping:
  assumes "truthy (env_value (GROQ_API_KEY env))"
    and "rateLimitMiddleware rc req now = (Next, rc')"
    and "get_prop (body req) (js ''messages'') = Inr m"
    and "isArray m"
    and "fetch (groq_request (the (GROQ_API_KEY env)) m) = Resolves response"
  shows "(up_status response = 401 \<and> up_text response = Inr errorData \<longrightarrow>
            fst (post_api_chat env fetch rc req now) = error_response 401 MSG_UPSTREAM_AUTH
            \<and> category_of (fst (post_api_chat env fetch rc req now)) = Some auth_failure)
         \<and> (up_status response = 429 \<and> up_text response = Inr errorData \<longrightarrow>
            fst (post_api_chat env fetch rc req now) = error_response 429 MSG_UPSTREAM_BUSY
            \<and> category_of (fst (post_api_chat env fetch rc req now)) = Some upstream_overloaded)
         \<and> (up_status response = 400 \<and> up_text response = Inr errorData \<longrightarrow>
            fst (post_api_chat env fetch rc req now) = error_response 400 MSG_UPSTREAM_BAD_REQUEST
            \<and> category_of (fst (post_api_chat env fetch rc req now)) = Some invalid_input)
         \<and> (\<not> ok response \<and> up_text response = Inr errorData \<and> up_status response \<noteq> 401
              \<and> up_status response \<noteq> 429 \<and> up_status response \<noteq> 400 \<longrightarrow>
            fst (post_api_chat env fetch rc req now)
              = error_response (up_status response) MSG_UPSTREAM
            \<and> category_of (fst (post_api_chat env fetch rc req now)) = Some upstream_error)
         \<and> (ok response \<and> up_json response = Inr data \<and> data \<noteq> Null \<and> data \<noteq> Undefined
              \<and> \<not> truthy (first_choice_message data) \<longrightarrow>
            fst (post_api_chat env fetch rc req now) = error_response 500 MSG_INCOMPLETE
            \<and> category_of (fst (post_api_chat env fetch rc req now))
                = Some malformed_upstream_response)
         \<and> (ok response \<and> up_json response = Inr data
              \<and> get_prop data (js ''choices'') = Inr (Array choices)
              \<and> \<not> spec_has_choice_with_message data \<longrightarrow>
            category_of (fst (post_api_chat env fetch rc req now))
              = Some malformed_upstream_response)
         \<and> (ok response \<and> up_json response = Inr data \<and> truthy (first_choice_message data) \<longrightarrow>
            fst (post_api_chat env fetch rc req now) = \<lparr>status = 200, payload = data\<rparr>)"
proof -
  let ?answer = "fst (post_api_chat env fetch rc req now)"
  have answer: "?answer =
           (if \<not> ok response then
              (case up_text response of
                 Inl e \<Rightarrow> chat_catch env e
               | Inr errorData \<Rightarrow>
                   error_response (up_status response) (errorMessage (up_status response)))
            else (case up_json response of
                    Inl e \<Rightarrow> chat_catch env e
                  | Inr data \<Rightarrow> (case relay data of Inl e \<Rightarrow> chat_catch env e | Inr r \<Rightarrow> r)))"
    by (simp add: post_api_chat_def route_admitted [OF assms(2)]
          chat_handler_forwarded [where fetch = fetch, OF assms(1,3,4,5)])
  have failed: "?answer = error_response (up_status response) (errorMessage (up_status response))"
    if "\<not> ok response" "up_text response = Inr errorData"
    using that answer by simp
  have parsed: "?answer = (if truthy (first_choice_message data)
                           then \<lparr>status = 200, payload = data\<rparr>
                           else error_response 500 MSG_INCOMPLETE)"
    if "ok response" "up_json response = Inr data" "data \<noteq> Null" "data \<noteq> Undefined"
    using that answer by (simp add: relay_first_choice)
  have c401: "?answer = error_response 401 MSG_UPSTREAM_AUTH
      \<and> category_of ?answer = Some auth_failure"
    if "up_status response = 401 \<and> up_text response = Inr errorData"
    using that failed by (simp add: ok_def errorMessage_def category_auth)
  have c429: "?answer = error_response 429 MSG_UPSTREAM_BUSY
      \<and> category_of ?answer = Some upstream_overloaded"
    if "up_status response = 429 \<and> up_text response = Inr errorData"
    using that failed by (simp add: ok_def errorMessage_def category_busy)
  have c400: "?answer = error_response 400 MSG_UPSTREAM_BAD_REQUEST
      \<and> category_of ?answer = Some invalid_input"
    if "up_status response = 400 \<and> up_text response = Inr errorData"
    using that failed by (simp add: ok_def errorMessage_def category_bad_request)
  have other: "?answer = error_response (up_status response) MSG_UPSTREAM
      \<and> category_of ?answer = Some upstream_error"
    if "\<not> ok response \<and> up_text response = Inr errorData \<and> up_status response \<noteq> 401
          \<and> up_status response \<noteq> 429 \<and> up_status response \<noteq> 400"
  proof -
    from that have "up_status response \<noteq> 200" by (auto simp: ok_def)
    with that failed show ?thesis by (simp add: errorMessage_def category_upstream)
  qed
  have incomplete: "?answer = error_response 500 MSG_INCOMPLETE
      \<and> category_of ?answer = Some malformed_upstream_response"
    if "ok response \<and> up_json response = Inr data \<and> data \<noteq> Null \<and> data \<noteq> Undefined
          \<and> \<not> truthy (first_choice_message data)"
    using that parsed by (simp add: category_incomplete)
  have no_choice: "category_of ?answer = Some malformed_upstream_response"
    if h: "ok response \<and> up_json response = Inr data
          \<and> get_prop data (js ''choices'') = Inr (Array choices)
          \<and> \<not> spec_has_choice_with_message data"
  proof -
    from h have "data \<noteq> Null" "data \<noteq> Undefined" by auto
    moreover have "\<not> truthy (first_choice_message data)"
      by (rule no_choice_no_first_choice [of data choices]) (simp_all add: h)
    ultimately show ?thesis using h incomplete by blast
  qed
  have relayed: "?answer = \<lparr>status = 200, payload = data\<rparr>"
    if h: "ok response \<and> up_json response = Inr data \<and> truthy (first_choice_message data)"
  proof -
    from h have "data \<noteq> Null" "data \<noteq> Undefined"
      using first_choice_message_undefined [of data] by auto
    with h parsed show ?thesis by simp
  qed
  show ?thesis
    by (intro conjI impI) (fact c401 c429 c400 other incomplete no_choice relayed |
        erule c401 [THEN conjunct1] c401 [THEN conjunct2] c429 [THEN conjunct1]
          c429 [THEN conjunct2] c400 [THEN conjunct1] c400 [THEN conjunct2]
          other [THEN conjunct1] other [THEN conjunct2] incomplete [THEN conjunct1]
          incomplete [THEN conjunct2] no_choice relayed)+
qed

theorem malformed_mapping_counterexample:
  "snd null_body = Inr Null
   \<and> \<not> spec_has_choice_with_message Null
   \<and> category_of (fst (post_api_chat example_env (always 200 null_body) Map.empty
        (chat_request (Array [hello])) 0)) = Some internal_error
   \<and> category_of (fst (post_api_chat example_env (always 200 null_body) Map.empty
        (chat_request (Array [hello])) 0)) \<noteq> Some malformed_upstream_response
   \<and> snd second_choice_body = Inr second_choice_completion
   \<and> spec_has_choice_with_message second_choice_completion
   \<and> fst (post_api_chat example_env (always 200 second_choice_body) Map.empty
        (chat_request (Array [hello])) 0) = error_response 500 MSG_INCOMPLETE
   \<and> fst (post_api_chat example_env (always 200 second_choice_body) Map.empty
        (chat_request (Array [hello])) 0) \<noteq> \<lparr>status = 200, payload = second_choice_completion\<rparr>"
proof -
  have "fst (post_api_chat example_env (always 200 null_body) Map.empty
        (chat_request (Array [hello])) 0) = chat_catch example_env TypeError"
    by (simp add: example_chat_answer ok_def example_bodies relay_def)
  then have null: "category_of (fst (post_api_chat example_env (always 200 null_body) Map.empty
        (chat_request (Array [hello])) 0)) = Some internal_error"
    by (simp add: category_server_error)
  have second: "fst (post_api_chat example_env (always 200 second_choice_body)
        Map.empty (chat_request (Array [hello])) 0) = error_response 500 MSG_INCOMPLETE"
    by (simp add: example_chat_answer ok_def example_bodies relay_second_choice)
  have "\<not> spec_has_choice_with_message Null"
    by (simp add: spec_has_choice_with_message_def)
  with null second spec_second_choice show ?thesis
    by (simp add: error_response_def example_bodies)
qed

theorem upstream_result_mapping_witness:
  "truthy (env_value (GROQ_API_KEY example_env))
   \<and> rateLimitMiddleware Map.empty (chat_request (Array [hello])) 0 =
       (Next, [clientIP (chat_request (Array [hello]))
                 \<mapsto> \<lparr>count = 1, resetTime = 0 + WINDOW_MS\<rparr>])
   \<and> get_prop (body (chat_request (Array [hello]))) (js ''messages'') = Inr (Array [hello])
   \<and> isArray (Array [hello])
   \<and> up_text \<lparr>up_status = 401, up_text = Inr (fst null_body), up_json = snd null_body\<rparr> = Inr (fst null_body)
   \<and> fst (post_api_chat example_env (always 401 null_body) Map.empty
        (chat_request (Array [hello])) 0) = error_response 401 MSG_UPSTREAM_AUTH
   \<and> category_of (fst (post_api_chat example_env (always 401 null_body) Map.empty
        (chat_request (Array [hello])) 0)) = Some auth_failure
   \<and> fst (post_api_chat example_env (always 429 null_body) Map.empty
        (chat_request (Array [hello])) 0) = error_response 429 MSG_UPSTREAM_BUSY
   \<and> category_of (fst (post_api_chat example_env (always 429 null_body) Map.empty
        (chat_request (Array [hello])) 0)) = Some upstream_overloaded
   \<and> fst (post_api_chat example_env (always 400 null_body) Map.empty
        (chat_request (Array [hello])) 0) = error_response 400 MSG_UPSTREAM_BAD_REQUEST
   \<and> category_of (fst (post_api_chat example_env (always 400 null_body) Map.empty
        (chat_request (Array [hello])) 0)) = Some invalid_input
   \<and> \<not> ok \<lparr>up_status = 503, up_text = Inr (fst null_body), up_json = snd null_body\<rparr>
   \<and> fst (post_api_chat example_env (always 503 null_body) Map.empty
        (chat_request (Array [hello])) 0) = error_response 503 MSG_UPSTREAM
   \<and> category_of (fst (post_api_chat example_env (always 503 null_body) Map.empty
        (chat_request (Array [hello])) 0)) = Some upstream_error
   \<and> ok \<lparr>up_status = 200, up_text = Inr (fst empty_object_body), up_json = snd empty_object_body\<rparr>
   \<and> snd empty_object_body = Inr (Object [])
   \<and> \<not> truthy (first_choice_message (Object []))
   \<and> fst (post_api_chat example_env (always 200 empty_object_body) Map.empty
        (chat_request (Array [hello])) 0) = error_response 500 MSG_INCOMPLETE
   \<and> category_of (fst (post_api_chat example_env (always 200 empty_object_body) Map.empty
        (chat_request (Array [hello])) 0)) = Some malformed_upstream_response
   \<and> snd no_choices_body = Inr (Object [(js ''choices'', Array [])])
   \<and> get_prop (Object [(js ''choices'', Array [])]) (js ''choices'') = Inr (Array [])
   \<and> \<not> spec_has_choice_with_message (Object [(js ''choices'', Array [])])
   \<and> category_of (fst (post_api_chat example_env (always 200 no_choices_body) Map.empty
        (chat_request (Array [hello])) 0)) = Some malformed_upstream_response
   \<and> snd completion_body = Inr example_completion
   \<and> truthy (first_choice_message example_completion)
   \<and> fst (post_api_chat example_env (always 200 completion_body) Map.empty
        (chat_request (Array [hello])) 0) = \<lparr>status = 200, payload = example_completion\<rparr>"
proof -
  have is_array: "isArray (Array [hello])" by simp
  note r401 = upstream_result_mapping [where now = 0 and fetch = "always 401 null_body"
      and errorData = "fst null_body",
      OF example_env_key(1) first_request_admitted chat_request_messages is_array always_resolves]
  note r429 = upstream_result_mapping [where now = 0 and fetch = "always 429 null_body"
      and errorData = "fst null_body",
      OF example_env_key(1) first_request_admitted chat_request_messages is_array always_resolves]
  note r400 = upstream_result_mapping [where now = 0 and fetch = "always 400 null_body"
      and errorData = "fst null_body",
      OF example_env_key(1) first_request_admitted chat_request_messages is_array always_resolves]
  note r503 = upstream_result_mapping [where now = 0 and fetch = "always 503 null_body"
      and errorData = "fst null_body",
      OF example_env_key(1) first_request_admitted chat_request_messages is_array always_resolves]
  note r_empty = upstream_result_mapping [where now = 0 and fetch = "always 200 empty_object_body"
      and data = "Object []",
      OF example_env_key(1) first_request_admitted chat_request_messages is_array always_resolves]
  note r_none = upstream_result_mapping [where now = 0 and fetch = "always 200 no_choices_body"
      and data = "Object [(js ''choices'', Array [])]" and choices = "[]",
      OF example_env_key(1) first_request_admitted chat_request_messages is_array always_resolves]
  note r_ok = upstream_result_mapping [where now = 0 and fetch = "always 200 completion_body"
      and data = "example_completion",
      OF example_env_key(1) first_request_admitted chat_request_messages is_array always_resolves]
  have not_ok: "\<not> ok \<lparr>up_status = 503, up_text = Inr (fst null_body), up_json = snd null_body\<rparr>"
    and is_ok: "ok \<lparr>up_status = 200, up_text = Inr (fst empty_object_body), up_json = snd empty_object_body\<rparr>"
    by (simp_all add: ok_def)
  have read: "up_text \<lparr>up_status = 401, up_text = Inr (fst null_body), up_json = snd null_body\<rparr> = Inr (fst null_body)"
    by simp
  have no_first: "\<not> truthy (first_choice_message (Object []))"
    by (simp add: first_choice_message_def js_def)
  have choices: "get_prop (Object [(js ''choices'', Array [])]) (js ''choices'') = Inr (Array [])"
    by (simp add: js_def)
  have no_choice: "\<not> spec_has_choice_with_message (Object [(js ''choices'', Array [])])"
    by (simp add: spec_has_choice_with_message_def js_def)
  have has_first: "truthy (first_choice_message example_completion)"
    by (simp add: first_choice_message_def example_completion_def js_def)
  have b401: "fst (post_api_chat example_env (always 401 null_body) Map.empty
        (chat_request (Array [hello])) 0) = error_response 401 MSG_UPSTREAM_AUTH
      \<and> category_of (fst (post_api_chat example_env (always 401 null_body) Map.empty
        (chat_request (Array [hello])) 0)) = Some auth_failure"
    by (rule r401 [THEN conjunct1, THEN mp]) simp
  have b429: "fst (post_api_chat example_env (always 429 null_body) Map.empty
        (chat_request (Array [hello])) 0) = error_response 429 MSG_UPSTREAM_BUSY
      \<and> category_of (fst (post_api_chat example_env (always 429 null_body) Map.empty
        (chat_request (Array [hello])) 0)) = Some upstream_overloaded"
    by (rule r429 [THEN conjunct2, THEN conjunct1, THEN mp]) simp
  have b400: "fst (post_api_chat example_env (always 400 null_body) Map.empty
        (chat_request (Array [hello])) 0) = error_response 400 MSG_UPSTREAM_BAD_REQUEST
      \<and> category_of (fst (post_api_chat example_env (always 400 null_body) Map.empty
        (chat_request (Array [hello])) 0)) = Some invalid_input"
    by (rule r400 [THEN conjunct2, THEN conjunct2, THEN conjunct1, THEN mp]) simp
  have b503: "fst (post_api_chat example_env (always 503 null_body) Map.empty
        (chat_request (Array [hello])) 0) = error_response 503 MSG_UPSTREAM
      \<and> category_of (fst (post_api_chat example_env (always 503 null_body) Map.empty
        (chat_request (Array [hello])) 0)) = Some upstream_error"
    using r503 [THEN conjunct2, THEN conjunct2, THEN conjunct2, THEN conjunct1, THEN mp] not_ok
    by (simp add: category_upstream)
  have b_empty: "fst (post_api_chat example_env (always 200 empty_object_body) Map.empty
        (chat_request (Array [hello])) 0) = error_response 500 MSG_INCOMPLETE
      \<and> category_of (fst (post_api_chat example_env (always 200 empty_object_body) Map.empty
        (chat_request (Array [hello])) 0)) = Some malformed_upstream_response"
    by (rule r_empty [THEN conjunct2, THEN conjunct2, THEN conjunct2, THEN conjunct2, THEN conjunct1, THEN mp]) (simp add: ok_def no_first example_bodies)
  have b_none: "category_of (fst (post_api_chat example_env (always 200 no_choices_body) Map.empty
        (chat_request (Array [hello])) 0)) = Some malformed_upstream_response"
    by (rule r_none [THEN conjunct2, THEN conjunct2, THEN conjunct2, THEN conjunct2, THEN conjunct2, THEN conjunct1, THEN mp]) (simp add: ok_def choices no_choice example_bodies)
  have b_ok: "fst (post_api_chat example_env (always 200 completion_body) Map.empty
        (chat_request (Array [hello])) 0) = \<lparr>status = 200, payload = example_completion\<rparr>"
    by (rule r_ok [THEN conjunct2, THEN conjunct2, THEN conjunct2, THEN conjunct2, THEN conjunct2, THEN conjunct2, THEN mp]) (simp add: ok_def has_first example_bodies)
  show ?thesis
    by (intro conjI example_env_key(1) first_request_admitted chat_request_messages is_array
          not_ok is_ok read no_first choices no_choice has_first example_bodies(2,3,4)
          b401 [THEN conjunct1] b401 [THEN conjunct2] b429 [THEN conjunct1] b429 [THEN conjunct2]
          b400 [THEN conjunct1] b400 [THEN conjunct2] b503 [THEN conjunct1] b503 [THEN conjunct2]
          b_empty [THEN conjunct1] b_empty [THEN conjunct2] b_none b_ok)
qed

end
